theory Spec2Isabelle
  imports Main "HOL-Library.Log_Nat"
begin

section \<open>JavaScript numbers\<close>

text \<open>
  The hold quota service computes the quota with JavaScript numbers, which are IEEE-754
  binary64 values. A finite number is modelled by the rational it denotes, and an
  arithmetic operation by the exact operation followed by rounding to the nearest
  binary64 value, ties to even: 53 significant bits, with the fixed spacing of the
  subnormal range below \<open>2 powi - 1022\<close>. Overflow to infinity and NaN are outside the
  model. Seat counts are 32-bit database integers, which binary64 represents exactly,
  and are modelled by \<open>int\<close>.
\<close>

definition ilog2 :: "rat \<Rightarrow> int" where
  \<comment> \<open>the binary exponent \<open>e\<close> of a positive number: \<open>2 powi e \<le> x < 2 powi (e + 1)\<close>\<close>
  "ilog2 x = (if 1 \<le> x then int (floorlog 2 (nat \<lfloor>x\<rfloor>)) - 1
              else - int (floorlog 2 (nat (\<lceil>1 / x\<rceil> - 1))))"

definition roundHalfEven :: "rat \<Rightarrow> int" where
  "roundHalfEven y = (let f = \<lfloor>y\<rfloor>; r = y - of_int f in
     if r < 1 / 2 then f else if 1 / 2 < r then f + 1 else if even f then f else f + 1)"

definition ulp :: "rat \<Rightarrow> rat" where
  \<comment> \<open>the spacing of binary64 values around a positive number\<close>
  "ulp x = 2 powi (max (ilog2 x) (- 1022) - 52)"

definition double_round :: "rat \<Rightarrow> rat" where
  "double_round x =
     (if x = 0 then 0 else sgn x * of_int (roundHalfEven (\<bar>x\<bar> / ulp \<bar>x\<bar>)) * ulp \<bar>x\<bar>)"

definition js_mul :: "rat \<Rightarrow> rat \<Rightarrow> rat" where
  "js_mul a b = double_round (a * b)"

definition js_div :: "rat \<Rightarrow> rat \<Rightarrow> rat" where
  "js_div a b = double_round (a / b)"

definition js_integral :: "int \<Rightarrow> int" where
  \<comment> \<open>the binary64 value nearest to an integer: the integer itself below \<open>2 ^ 53\<close>, and
     an integer again above\<close>
  "js_integral n = \<lfloor>double_round (of_int n)\<rfloor>"

definition js_plus :: "int \<Rightarrow> int \<Rightarrow> int" where
  \<comment> \<open>\<open>a + b\<close> on integral numbers\<close>
  "js_plus a b = js_integral (a + b)"

definition js_times :: "int \<Rightarrow> int \<Rightarrow> int" where
  \<comment> \<open>\<open>a * b\<close> on integral numbers\<close>
  "js_times a b = js_integral (a * b)"

section \<open>Configuration\<close>

text \<open>
  What the service takes from outside its source text is a parameter of every operation
  that uses it:
  \<^item> \<open>DEFAULT_HOLD_EXPIRY_MINUTES\<close> and \<open>DEFAULT_HOLD_QUOTA_PERCENTAGE\<close>, read from the
    process environment with \<open>parseInt\<close> and \<open>parseFloat\<close> when the module is loaded (30
    and 25 when unset); a setting that does not parse as a number is outside the model;
  \<^item> the time zone of the process, as the function \<open>LocalTZA\<close> of ECMAScript: the offset
    of local time from UTC in milliseconds, at an instant (\<open>True\<close>) or at a local time
    value (\<open>False\<close>);
  \<^item> how the database schema, which is not part of the source, declares the column
    \<open>holdQuotaPercentage\<close>: as a decimal, which reaches the service as a \<open>Decimal\<close> object,
    or as a floating-point number.
\<close>

record Config =
  DEFAULT_HOLD_EXPIRY_MINUTES :: int
  DEFAULT_HOLD_QUOTA_PERCENTAGE :: rat
  LocalTZA :: "int \<Rightarrow> bool \<Rightarrow> int"
  percentageIsDecimal :: bool

section \<open>Dates\<close>

text \<open>
  A \<open>Date\<close> holds a time value, the milliseconds since the epoch as an integral number of
  magnitude at most 8640000000000000, or is an Invalid Date (\<open>None\<close>). \<open>getMinutes\<close> and
  \<open>setMinutes\<close> work on the local wall clock; the functions below are the abstract
  operations of the ECMAScript specification that define them. Sums and products are
  those of binary64. The divisions that take a time value apart are exact on every time
  value of a \<open>Date\<close>, and are integer divisions here. A sum that overflows to infinity in
  binary64 stays a large number here; \<open>TimeClip\<close> answers both with an Invalid Date.
\<close>

definition Day :: "int \<Rightarrow> int" where
  "Day t = t div 86400000"

definition HourFromTime :: "int \<Rightarrow> int" where
  "HourFromTime t = (t div 3600000) mod 24"

definition MinFromTime :: "int \<Rightarrow> int" where
  "MinFromTime t = (t div 60000) mod 60"

definition SecFromTime :: "int \<Rightarrow> int" where
  "SecFromTime t = (t div 1000) mod 60"

definition msFromTime :: "int \<Rightarrow> int" where
  "msFromTime t = t mod 1000"

definition MakeTime :: "int \<Rightarrow> int \<Rightarrow> int \<Rightarrow> int \<Rightarrow> int" where
  \<comment> \<open>\<open>((hour * msPerHour + min * msPerMinute) + sec * msPerSecond) + ms\<close>\<close>
  "MakeTime hour minute sec ms =
     js_plus (js_plus (js_plus (js_times hour 3600000) (js_times minute 60000))
                (js_times sec 1000)) ms"

definition MakeDate :: "int \<Rightarrow> int \<Rightarrow> int" where
  \<comment> \<open>\<open>day * msPerDay + time\<close>\<close>
  "MakeDate day time = js_plus (js_times day 86400000) time"

definition LocalTime :: "Config \<Rightarrow> int \<Rightarrow> int" where
  "LocalTime cfg t = js_plus t (LocalTZA cfg t True)"

definition UTC :: "Config \<Rightarrow> int \<Rightarrow> int" where
  "UTC cfg t = js_plus t (- LocalTZA cfg t False)"

definition TimeClip :: "int \<Rightarrow> int option" where
  "TimeClip t = (if 8640000000000000 < \<bar>t\<bar> then None else Some t)"

definition getMinutes :: "Config \<Rightarrow> int \<Rightarrow> int" where
  "getMinutes cfg t = MinFromTime (LocalTime cfg t)"

definition setMinutes :: "Config \<Rightarrow> int \<Rightarrow> int \<Rightarrow> int option" where
  \<comment> \<open>the time value of the date after \<open>setMinutes(minute)\<close> on a date with time value \<open>t\<close>\<close>
  "setMinutes cfg t minute =
     (let local = LocalTime cfg t
      in TimeClip (UTC cfg (MakeDate (Day local)
           (MakeTime (HourFromTime local) minute (SecFromTime local) (msFromTime local)))))"

section \<open>Hold quota calculations\<close>

definition calculateMaxHolds :: "int \<Rightarrow> rat \<Rightarrow> int" where
  \<comment> \<open>\<open>Math.floor((totalSeats * holdQuotaPercentage) / 100)\<close>\<close>
  "calculateMaxHolds totalSeats holdQuotaPercentage =
     \<lfloor>js_div (js_mul (of_int totalSeats) holdQuotaPercentage) 100\<rfloor>"

section \<open>Data model\<close>

text \<open>
  The rows the service reads and writes through the ORM. A schedule is loaded together
  with its route and the route's partner, so the joined rows are nested. The seat map
  \<open>seatStatus\<close> is a JSON object from seat number to one of the strings \<open>AVAILABLE\<close>,
  \<open>HELD\<close>, \<open>BOOKED\<close>. The status of a schedule is the name of its enum value. Points in
  time are milliseconds since the epoch, and every operation takes the reading of the
  clock, \<open>new Date()\<close>, as its argument \<open>now\<close>; a minute is 60000 milliseconds. The
  \<open>holdExpiryMinutes\<close> of a request is a whole number of minutes. The
  identifier of a new hold is taken from a counter that stands for the store's generator
  of unique ids.
\<close>

datatype HoldStatus = ACTIVE | RELEASED | CONVERTED

datatype Category = BUS | FLIGHT

datatype ReleaseReason = REASON_EXPIRED | REASON_USER_CANCELLED | REASON_CONVERTED

record Partner =
  holdQuotaEnabled :: bool
  holdQuotaPercentage :: rat
  holdExpiryMinutes :: int

record BusRoute =
  totalSeats :: int
  partner :: "Partner option"

record BusSchedule =
  status :: string
  seatStatus :: "string \<rightharpoonup> string"
  availableSeats :: int
  heldSeats :: int
  bookedSeats :: int
  route :: BusRoute

record Flight =
  flightPartner :: "Partner option"

record FlightSchedule =
  economySeats :: int
  economyBooked :: int
  flight :: Flight

record SeatHold =
  holdId :: nat
  scheduleId :: string
  seatNumbers :: "string list"
  heldBy :: string
  holdExpiry :: int
  holdStatus :: HoldStatus
  releasedAt :: "int option"

record Database =
  busSchedules :: "string \<rightharpoonup> BusSchedule"
  flightSchedules :: "string \<rightharpoonup> FlightSchedule"
  seatHolds :: "SeatHold list"
  nextHoldId :: nat

text \<open>
  Every \<open>throw new Error(...)\<close> of the service is a value of \<open>Error\<close>, named after its
  message. Two more errors are thrown by the store client: \<open>InvalidHoldExpiry\<close> when
  \<open>seatHold.create\<close> is given an Invalid Date, which cannot be written to the store, and
  \<open>StoreFailure c\<close> when the call \<open>c\<close> to the store fails (a lost connection, a failed
  commit); \<open>StoreCall\<close> names the calls the three hold operations make. The \<open>message\<close>
  of a result is a \<open>Message\<close>:
  \<^item> \<open>HoldQuotaExceeded m c\<close> is \<open>Hold quota exceeded. Max allowed: m, Currently held: c\<close>,
  \<^item> \<open>SeatsHeldSuccessfully\<close> is \<open>Seats held successfully\<close>,
  \<^item> \<open>ErrorMessage e\<close> is the message of the caught error \<open>e\<close>.
\<close>

datatype StoreCall =
    QuotaFindSchedule
  | HoldFindSchedule | HoldUpdateSchedule | HoldCreateHold
  | ReleaseFindHold | ReleaseFindSchedule | ReleaseUpdateSchedule | ReleaseUpdateHold
  | ConvertFindHold | ConvertUpdateHold | ConvertFindSchedule | ConvertUpdateSchedule
  | TransactionBegin | TransactionCommit

datatype Error =
    BusScheduleNotFound
  | FlightScheduleNotFound
  | ScheduleNotAvailable
  | SeatNotAvailable string
  | FlightSeatHoldNotImplemented
  | HoldNotFoundOrAlreadyReleased
  | HoldNotFoundOrNotActive
  | InvalidHoldExpiry
  | StoreFailure StoreCall

datatype Message = HoldQuotaExceeded int int | SeatsHeldSuccessfully | ErrorMessage Error

record QuotaCheck =
  available :: bool
  maxAllowed :: int
  currentHeld :: int

record HoldSeatsParams =
  reqScheduleId :: string
  reqSeatNumbers :: "string list"
  reqHeldBy :: string
  reqCategory :: Category
  reqHoldExpiryMinutes :: "int option"

record HoldResult =
  success :: bool
  resultHoldId :: "nat option"
  resultSeatNumbers :: "string list"
  resultHoldExpiry :: int
  message :: Message

section \<open>Quota check\<close>

definition loadQuotaInputs ::
  "string \<Rightarrow> Category \<Rightarrow> Database \<Rightarrow> Error + (int \<times> int \<times> Partner option)" where
  \<comment> \<open>the first half of \<open>isHoldQuotaAvailable\<close>: \<open>totalSeats\<close>, \<open>currentHeld\<close> and the partner\<close>
  "loadQuotaInputs sid category db =
     (case category of
        BUS \<Rightarrow>
          (case busSchedules db sid of
             None \<Rightarrow> Inl BusScheduleNotFound
           | Some schedule \<Rightarrow>
               Inr (totalSeats (route schedule), heldSeats schedule, partner (route schedule)))
      | FLIGHT \<Rightarrow>
          (case flightSchedules db sid of
             None \<Rightarrow> Inl FlightScheduleNotFound
           | Some schedule \<Rightarrow>
               Inr (economySeats schedule, economyBooked schedule,
                    flightPartner (flight schedule))))"

definition policyEnabled :: "Partner option \<Rightarrow> bool" where
  \<comment> \<open>\<open>partner?.holdQuotaEnabled\<close>\<close>
  "policyEnabled p = (case p of None \<Rightarrow> False | Some q \<Rightarrow> holdQuotaEnabled q)"

definition percentageTruthy :: "Config \<Rightarrow> rat \<Rightarrow> bool" where
  \<comment> \<open>whether \<open>partner.holdQuotaPercentage\<close> counts as true in \<open>||\<close>: a \<open>Decimal\<close> object
     always does, a number does unless it is 0\<close>
  "percentageTruthy cfg x = (percentageIsDecimal cfg \<or> x \<noteq> 0)"

definition percentageToNumber :: "Config \<Rightarrow> rat \<Rightarrow> rat" where
  \<comment> \<open>\<open>Number(...)\<close> of the stored percentage: the binary64 value nearest to a decimal, and
     a number itself\<close>
  "percentageToNumber cfg x = (if percentageIsDecimal cfg then double_round x else x)"

definition policyQuotaPercentage :: "Config \<Rightarrow> Partner \<Rightarrow> rat" where
  \<comment> \<open>\<open>Number(partner.holdQuotaPercentage || DEFAULT_HOLD_QUOTA_PERCENTAGE)\<close>\<close>
  "policyQuotaPercentage cfg p =
     (if percentageTruthy cfg (holdQuotaPercentage p)
      then percentageToNumber cfg (holdQuotaPercentage p)
      else DEFAULT_HOLD_QUOTA_PERCENTAGE cfg)"

definition isHoldQuotaAvailable ::
  "Config \<Rightarrow> string \<Rightarrow> int \<Rightarrow> Category \<Rightarrow> Database \<Rightarrow> Error + QuotaCheck" where
  "isHoldQuotaAvailable cfg sid requestedSeats category db =
     (case loadQuotaInputs sid category db of
        Inl e \<Rightarrow> Inl e
      | Inr (seats, held, p) \<Rightarrow>
          (case p of
             None \<Rightarrow> Inr \<lparr>available = False, maxAllowed = 0, currentHeld = 0\<rparr>
           | Some q \<Rightarrow>
               if \<not> holdQuotaEnabled q
               then Inr \<lparr>available = False, maxAllowed = 0, currentHeld = 0\<rparr>
               else
                 let maxA = calculateMaxHolds seats (policyQuotaPercentage cfg q)
                 in Inr \<lparr>available = (held + requestedSeats \<le> maxA),
                         maxAllowed = maxA, currentHeld = held\<rparr>))"

section \<open>Seat hold operations\<close>

definition markSeats :: "string \<Rightarrow> string list \<Rightarrow> (string \<rightharpoonup> string) \<Rightarrow> (string \<rightharpoonup> string)" where
  \<comment> \<open>\<open>for (const seat of seatNumbers) newSeatStatus[seat] = v\<close>\<close>
  "markSeats v seats m = fold (\<lambda>seat acc. acc(seat \<mapsto> v)) seats m"

definition releaseSeats :: "string list \<Rightarrow> (string \<rightharpoonup> string) \<Rightarrow> (string \<rightharpoonup> string)" where
  \<comment> \<open>\<open>if (newSeatStatus[seat] === 'HELD') newSeatStatus[seat] = 'AVAILABLE'\<close> for each seat\<close>
  "releaseSeats seats m =
     fold (\<lambda>seat acc. if acc seat = Some ''HELD'' then acc(seat \<mapsto> ''AVAILABLE'') else acc)
       seats m"

definition findHold :: "nat \<Rightarrow> Database \<Rightarrow> SeatHold option" where
  \<comment> \<open>\<open>seatHold.findUnique({ where: { id } })\<close>\<close>
  "findHold i db = List.find (\<lambda>h. holdId h = i) (seatHolds db)"

definition updateHold :: "nat \<Rightarrow> (SeatHold \<Rightarrow> SeatHold) \<Rightarrow> Database \<Rightarrow> Database" where
  \<comment> \<open>\<open>seatHold.update({ where: { id }, data })\<close>\<close>
  "updateHold i f db =
     db\<lparr>seatHolds := map (\<lambda>h. if holdId h = i then f h else h) (seatHolds db)\<rparr>"

definition holdSchedule :: "string list \<Rightarrow> BusSchedule \<Rightarrow> BusSchedule" where
  \<comment> \<open>the \<open>busSchedule.update\<close> of \<open>holdSeats\<close>\<close>
  "holdSchedule seats schedule =
     schedule
       \<lparr>seatStatus := markSeats ''HELD'' seats (seatStatus schedule),
        availableSeats := availableSeats schedule - int (length seats),
        heldSeats := heldSeats schedule + int (length seats)\<rparr>"

definition newHold :: "HoldSeatsParams \<Rightarrow> int \<Rightarrow> Database \<Rightarrow> SeatHold" where
  \<comment> \<open>the row written by \<open>seatHold.create\<close>\<close>
  "newHold params expiry db =
     \<lparr>holdId = nextHoldId db,
      scheduleId = reqScheduleId params,
      seatNumbers = reqSeatNumbers params,
      heldBy = reqHeldBy params,
      holdExpiry = expiry,
      holdStatus = ACTIVE,
      releasedAt = None\<rparr>"

definition holdSeatsTx ::
  "HoldSeatsParams \<Rightarrow> int option \<Rightarrow> Database \<Rightarrow> Error + (Database \<times> SeatHold)" where
  \<comment> \<open>the transaction of \<open>holdSeats\<close> when every call to the store goes through; a thrown
     error is \<open>Inl\<close> and leaves nothing written\<close>
  "holdSeatsTx params expiry db =
     (case reqCategory params of
        FLIGHT \<Rightarrow> Inl FlightSeatHoldNotImplemented
      | BUS \<Rightarrow>
          (case busSchedules db (reqScheduleId params) of
             None \<Rightarrow> Inl ScheduleNotAvailable
           | Some schedule \<Rightarrow>
               if status schedule \<noteq> ''ACTIVE'' then Inl ScheduleNotAvailable
               else
                 (case List.find (\<lambda>seat. seatStatus schedule seat \<noteq> Some ''AVAILABLE'')
                         (reqSeatNumbers params) of
                    Some seat \<Rightarrow> Inl (SeatNotAvailable seat)
                  | None \<Rightarrow>
                      (case expiry of
                         None \<Rightarrow> Inl InvalidHoldExpiry
                       | Some expiryTime \<Rightarrow>
                           Inr (db\<lparr>busSchedules :=
                                     (busSchedules db)(reqScheduleId params \<mapsto>
                                        holdSchedule (reqSeatNumbers params) schedule),
                                   seatHolds := seatHolds db @ [newHold params expiryTime db],
                                   nextHoldId := Suc (nextHoldId db)\<rparr>,
                                newHold params expiryTime db)))))"

definition holdFailure :: "HoldSeatsParams \<Rightarrow> int \<Rightarrow> Message \<Rightarrow> HoldResult" where
  "holdFailure params now msg =
     \<lparr>success = False, resultHoldId = None, resultSeatNumbers = reqSeatNumbers params,
      resultHoldExpiry = now, message = msg\<rparr>"

definition holdExpiryAt :: "Config \<Rightarrow> HoldSeatsParams \<Rightarrow> int \<Rightarrow> int option" where
  \<comment> \<open>\<open>holdExpiry.setMinutes(holdExpiry.getMinutes() + holdExpiryMinutes)\<close> on
     \<open>holdExpiry = new Date()\<close>, where \<open>holdExpiryMinutes\<close> is the parameter of the call and
     defaults to \<open>DEFAULT_HOLD_EXPIRY_MINUTES\<close>\<close>
  "holdExpiryAt cfg params now =
     setMinutes cfg now
       (js_plus (getMinutes cfg now)
          (case reqHoldExpiryMinutes params of
             None \<Rightarrow> DEFAULT_HOLD_EXPIRY_MINUTES cfg
           | Some m \<Rightarrow> m))"

definition holdSeatsAfterCheck ::
  "Config \<Rightarrow> HoldSeatsParams \<Rightarrow> int \<Rightarrow> QuotaCheck \<Rightarrow> Database \<Rightarrow> Database \<times> HoldResult" where
  \<comment> \<open>\<open>holdSeats\<close> from the point where \<open>isHoldQuotaAvailable\<close> has returned \<open>quotaCheck\<close>\<close>
  "holdSeatsAfterCheck cfg params now quotaCheck db =
     (if \<not> available quotaCheck
      then (db, holdFailure params now
                  (HoldQuotaExceeded (maxAllowed quotaCheck) (currentHeld quotaCheck)))
      else
        (case holdSeatsTx params (holdExpiryAt cfg params now) db of
           Inl e \<Rightarrow> (db, holdFailure params now (ErrorMessage e))
         | Inr (db', hold) \<Rightarrow>
             (db', \<lparr>success = True, resultHoldId = Some (holdId hold),
                    resultSeatNumbers = reqSeatNumbers params,
                    resultHoldExpiry = holdExpiry hold,
                    message = SeatsHeldSuccessfully\<rparr>)))"

definition holdSeats ::
  "Config \<Rightarrow> HoldSeatsParams \<Rightarrow> int \<Rightarrow> Database \<Rightarrow> Database \<times> HoldResult" where
  "holdSeats cfg params now db =
     (case isHoldQuotaAvailable cfg (reqScheduleId params)
             (int (length (reqSeatNumbers params))) (reqCategory params) db of
        Inl e \<Rightarrow> (db, holdFailure params now (ErrorMessage e))
      | Inr quotaCheck \<Rightarrow> holdSeatsAfterCheck cfg params now quotaCheck db)"

definition releaseSchedule :: "string list \<Rightarrow> BusSchedule \<Rightarrow> BusSchedule" where
  \<comment> \<open>the \<open>busSchedule.update\<close> of \<open>releaseHold\<close>\<close>
  "releaseSchedule seats schedule =
     schedule
       \<lparr>seatStatus := releaseSeats seats (seatStatus schedule),
        availableSeats := availableSeats schedule + int (length seats),
        heldSeats := heldSeats schedule - int (length seats)\<rparr>"

definition releasedHold :: "ReleaseReason \<Rightarrow> int \<Rightarrow> SeatHold \<Rightarrow> SeatHold" where
  \<comment> \<open>the \<open>seatHold.update\<close> of \<open>releaseHold\<close>\<close>
  "releasedHold reason now h =
     h\<lparr>holdStatus := (if reason = REASON_CONVERTED then CONVERTED else RELEASED),
       releasedAt := Some now\<rparr>"

definition releaseScheduleOf ::
  "SeatHold \<Rightarrow> (string \<rightharpoonup> BusSchedule) \<Rightarrow> (string \<rightharpoonup> BusSchedule)" where
  \<comment> \<open>\<open>if (schedule) { ... busSchedule.update ... }\<close> of \<open>releaseHold\<close>, on the table of
     schedules\<close>
  "releaseScheduleOf hold m =
     (case m (scheduleId hold) of
        None \<Rightarrow> m
      | Some schedule \<Rightarrow>
          m(scheduleId hold \<mapsto> releaseSchedule (seatNumbers hold) schedule))"

definition releaseInventory :: "SeatHold \<Rightarrow> Database \<Rightarrow> Database" where
  "releaseInventory hold db = db\<lparr>busSchedules := releaseScheduleOf hold (busSchedules db)\<rparr>"

definition releaseHoldTx :: "nat \<Rightarrow> ReleaseReason \<Rightarrow> int \<Rightarrow> Database \<Rightarrow> Error + Database" where
  "releaseHoldTx i reason now db =
     (case findHold i db of
        None \<Rightarrow> Inl HoldNotFoundOrAlreadyReleased
      | Some hold \<Rightarrow>
          if holdStatus hold \<noteq> ACTIVE then Inl HoldNotFoundOrAlreadyReleased
          else Inr (updateHold i (releasedHold reason now) (releaseInventory hold db)))"

definition releaseHold :: "nat \<Rightarrow> ReleaseReason \<Rightarrow> int \<Rightarrow> Database \<Rightarrow> Database \<times> bool" where
  \<comment> \<open>a failed transaction is rolled back: the store is the one before the call\<close>
  "releaseHold i reason now db =
     (case releaseHoldTx i reason now db of Inl e \<Rightarrow> (db, False) | Inr db' \<Rightarrow> (db', True))"

definition bookSchedule :: "string list \<Rightarrow> BusSchedule \<Rightarrow> BusSchedule" where
  \<comment> \<open>the \<open>busSchedule.update\<close> of \<open>convertHoldToBooking\<close>\<close>
  "bookSchedule seats schedule =
     schedule
       \<lparr>seatStatus := markSeats ''BOOKED'' seats (seatStatus schedule),
        heldSeats := heldSeats schedule - int (length seats),
        bookedSeats := bookedSeats schedule + int (length seats)\<rparr>"

definition convertedHold :: "int \<Rightarrow> SeatHold \<Rightarrow> SeatHold" where
  \<comment> \<open>the \<open>seatHold.update\<close> of \<open>convertHoldToBooking\<close>\<close>
  "convertedHold now h = h\<lparr>holdStatus := CONVERTED, releasedAt := Some now\<rparr>"

definition bookInventory :: "SeatHold \<Rightarrow> Database \<Rightarrow> Database" where
  \<comment> \<open>\<open>if (schedule) { ... busSchedule.update ... }\<close> of \<open>convertHoldToBooking\<close>\<close>
  "bookInventory hold db =
     (case busSchedules db (scheduleId hold) of
        None \<Rightarrow> db
      | Some schedule \<Rightarrow>
          db\<lparr>busSchedules := (busSchedules db)(scheduleId hold \<mapsto>
               bookSchedule (seatNumbers hold) schedule)\<rparr>)"

definition convertHoldToBookingTx :: "nat \<Rightarrow> int \<Rightarrow> Database \<Rightarrow> Error + Database" where
  "convertHoldToBookingTx i now db =
     (case findHold i db of
        None \<Rightarrow> Inl HoldNotFoundOrNotActive
      | Some hold \<Rightarrow>
          if holdStatus hold \<noteq> ACTIVE then Inl HoldNotFoundOrNotActive
          else Inr (bookInventory hold (updateHold i (convertedHold now) db)))"

definition convertHoldToBooking :: "nat \<Rightarrow> string \<Rightarrow> int \<Rightarrow> Database \<Rightarrow> Database \<times> bool" where
  \<comment> \<open>\<open>bookingId\<close> is only logged\<close>
  "convertHoldToBooking i bookingId now db =
     (case convertHoldToBookingTx i now db of Inl e \<Rightarrow> (db, False) | Inr db' \<Rightarrow> (db', True))"

section \<open>Auto release of expired holds\<close>

definition isExpired :: "int \<Rightarrow> SeatHold \<Rightarrow> bool" where
  \<comment> \<open>\<open>where: { status: HoldStatus.ACTIVE, holdExpiry: { lt: new Date() } }\<close>\<close>
  "isExpired now h = (holdStatus h = ACTIVE \<and> holdExpiry h < now)"

fun releaseEach :: "SeatHold list \<Rightarrow> int \<Rightarrow> Database \<Rightarrow> nat \<Rightarrow> Database \<times> nat" where
  "releaseEach [] now db releasedCount = (db, releasedCount)"
| "releaseEach (hold # rest) now db releasedCount =
     (case releaseHold (holdId hold) REASON_EXPIRED now db of
        (db', ok) \<Rightarrow> releaseEach rest now db' (if ok then releasedCount + 1 else releasedCount))"

definition releaseExpiredHolds :: "int \<Rightarrow> Database \<Rightarrow> Database \<times> nat" where
  "releaseExpiredHolds now db =
     releaseEach (filter (isExpired now) (seatHolds db)) now db 0"

section \<open>Operations with failing store calls\<close>

text \<open>
  The operations above are the runs in which every call to the store goes through. A call
  can also fail, and the client then throws inside the service. Which calls fail in a run
  is a predicate \<open>fails\<close> on \<open>StoreCall\<close>. The callback of a transaction is a function from
  the store to the store as the callback has written it so far, paired with its outcome:
  \<open>Inr\<close> of the value it returns or \<open>Inl\<close> of the error it throws. \<open>transaction\<close> is
  \<open>prisma.$transaction\<close>: the writes of a callback that returns are kept if the commit goes
  through; the writes of a callback that throws, or whose commit fails, are rolled back,
  and the error is thrown to the caller of \<open>$transaction\<close>. \<open>tryCatch\<close> is a \<open>try\<close> block with
  its \<open>catch\<close> handler. An operation returns the store together with \<open>Inr\<close> of its result,
  or with \<open>Inl\<close> of an error that reaches its caller. Logging is left out.
\<close>

definition transaction ::
  "(StoreCall \<Rightarrow> bool) \<Rightarrow> (Database \<Rightarrow> Database \<times> (Error + 'a)) \<Rightarrow> Database
     \<Rightarrow> Database \<times> (Error + 'a)" where
  "transaction fails callback db =
     (if fails TransactionBegin then (db, Inl (StoreFailure TransactionBegin))
      else
        (case callback db of
           (written, Inl e) \<Rightarrow> (db, Inl e)
         | (written, Inr a) \<Rightarrow>
             if fails TransactionCommit then (db, Inl (StoreFailure TransactionCommit))
             else (written, Inr a)))"

definition tryCatch ::
  "(Database \<Rightarrow> Database \<times> (Error + 'a)) \<Rightarrow> (Error \<Rightarrow> Error + 'a) \<Rightarrow> Database
     \<Rightarrow> Database \<times> (Error + 'a)" where
  "tryCatch body handler db =
     (case body db of
        (db', Inl e) \<Rightarrow> (db', handler e)
      | (db', Inr a) \<Rightarrow> (db', Inr a))"

definition isHoldQuotaAvailableWith ::
  "(StoreCall \<Rightarrow> bool) \<Rightarrow> Config \<Rightarrow> string \<Rightarrow> int \<Rightarrow> Category \<Rightarrow> Database
     \<Rightarrow> Error + QuotaCheck" where
  \<comment> \<open>\<open>isHoldQuotaAvailable\<close> makes one call, a read\<close>
  "isHoldQuotaAvailableWith fails cfg sid requestedSeats category db =
     (if fails QuotaFindSchedule then Inl (StoreFailure QuotaFindSchedule)
      else isHoldQuotaAvailable cfg sid requestedSeats category db)"

definition holdSeatsCallback ::
  "(StoreCall \<Rightarrow> bool) \<Rightarrow> HoldSeatsParams \<Rightarrow> int option \<Rightarrow> Database
     \<Rightarrow> Database \<times> (Error + SeatHold)" where
  \<comment> \<open>the callback \<open>async (tx) => { ... }\<close> of \<open>holdSeats\<close>\<close>
  "holdSeatsCallback fails params expiry db =
     (case reqCategory params of
        FLIGHT \<Rightarrow> (db, Inl FlightSeatHoldNotImplemented)
      | BUS \<Rightarrow>
          if fails HoldFindSchedule then (db, Inl (StoreFailure HoldFindSchedule))
          else
            (case busSchedules db (reqScheduleId params) of
               None \<Rightarrow> (db, Inl ScheduleNotAvailable)
             | Some schedule \<Rightarrow>
                 if status schedule \<noteq> ''ACTIVE'' then (db, Inl ScheduleNotAvailable)
                 else
                   (case List.find (\<lambda>seat. seatStatus schedule seat \<noteq> Some ''AVAILABLE'')
                           (reqSeatNumbers params) of
                      Some seat \<Rightarrow> (db, Inl (SeatNotAvailable seat))
                    | None \<Rightarrow>
                        if fails HoldUpdateSchedule
                        then (db, Inl (StoreFailure HoldUpdateSchedule))
                        else
                          let updated = db\<lparr>busSchedules :=
                                (busSchedules db)(reqScheduleId params \<mapsto>
                                   holdSchedule (reqSeatNumbers params) schedule)\<rparr>
                          in if fails HoldCreateHold
                             then (updated, Inl (StoreFailure HoldCreateHold))
                             else
                               (case expiry of
                                  None \<Rightarrow> (updated, Inl InvalidHoldExpiry)
                                | Some expiryTime \<Rightarrow>
                                    (updated\<lparr>seatHolds := seatHolds updated
                                                @ [newHold params expiryTime updated],
                                             nextHoldId := Suc (nextHoldId updated)\<rparr>,
                                     Inr (newHold params expiryTime updated))))))"

definition holdSeatsBody ::
  "(StoreCall \<Rightarrow> bool) \<Rightarrow> Config \<Rightarrow> HoldSeatsParams \<Rightarrow> int \<Rightarrow> Database
     \<Rightarrow> Database \<times> (Error + HoldResult)" where
  \<comment> \<open>the \<open>try\<close> block of \<open>holdSeats\<close>\<close>
  "holdSeatsBody fails cfg params now db =
     (case isHoldQuotaAvailableWith fails cfg (reqScheduleId params)
             (int (length (reqSeatNumbers params))) (reqCategory params) db of
        Inl e \<Rightarrow> (db, Inl e)
      | Inr quotaCheck \<Rightarrow>
          if \<not> available quotaCheck
          then (db, Inr (holdFailure params now
                           (HoldQuotaExceeded (maxAllowed quotaCheck) (currentHeld quotaCheck))))
          else
            (case transaction fails
                    (holdSeatsCallback fails params (holdExpiryAt cfg params now)) db of
               (db', Inl e) \<Rightarrow> (db', Inl e)
             | (db', Inr hold) \<Rightarrow>
                 (db', Inr \<lparr>success = True, resultHoldId = Some (holdId hold),
                            resultSeatNumbers = reqSeatNumbers params,
                            resultHoldExpiry = holdExpiry hold,
                            message = SeatsHeldSuccessfully\<rparr>)))"

definition holdSeatsWith ::
  "(StoreCall \<Rightarrow> bool) \<Rightarrow> Config \<Rightarrow> HoldSeatsParams \<Rightarrow> int \<Rightarrow> Database
     \<Rightarrow> Database \<times> (Error + HoldResult)" where
  \<comment> \<open>\<open>holdSeats\<close> in a run where the calls in \<open>fails\<close> fail\<close>
  "holdSeatsWith fails cfg params now db =
     tryCatch (holdSeatsBody fails cfg params now)
       (\<lambda>e. Inr (holdFailure params now (ErrorMessage e))) db"

definition releaseHoldCallback ::
  "(StoreCall \<Rightarrow> bool) \<Rightarrow> nat \<Rightarrow> ReleaseReason \<Rightarrow> int \<Rightarrow> Database
     \<Rightarrow> Database \<times> (Error + SeatHold)" where
  \<comment> \<open>the callback of \<open>releaseHold\<close>; it returns the updated hold\<close>
  "releaseHoldCallback fails i reason now db =
     (if fails ReleaseFindHold then (db, Inl (StoreFailure ReleaseFindHold))
      else
        (case findHold i db of
           None \<Rightarrow> (db, Inl HoldNotFoundOrAlreadyReleased)
         | Some hold \<Rightarrow>
             if holdStatus hold \<noteq> ACTIVE then (db, Inl HoldNotFoundOrAlreadyReleased)
             else if fails ReleaseFindSchedule
             then (db, Inl (StoreFailure ReleaseFindSchedule))
             else if busSchedules db (scheduleId hold) \<noteq> None \<and> fails ReleaseUpdateSchedule
             then (db, Inl (StoreFailure ReleaseUpdateSchedule))
             else if fails ReleaseUpdateHold
             then (releaseInventory hold db, Inl (StoreFailure ReleaseUpdateHold))
             else (updateHold i (releasedHold reason now) (releaseInventory hold db),
                   Inr (releasedHold reason now hold))))"

definition releaseHoldWith ::
  "(StoreCall \<Rightarrow> bool) \<Rightarrow> nat \<Rightarrow> ReleaseReason \<Rightarrow> int \<Rightarrow> Database
     \<Rightarrow> Database \<times> (Error + bool)" where
  \<comment> \<open>\<open>releaseHold\<close> in a run where the calls in \<open>fails\<close> fail\<close>
  "releaseHoldWith fails i reason now db =
     tryCatch
       (\<lambda>db. case transaction fails (releaseHoldCallback fails i reason now) db of
                (db', Inl e) \<Rightarrow> (db', Inl e)
              | (db', Inr updatedHold) \<Rightarrow> (db', Inr True))
       (\<lambda>e. Inr False) db"

definition convertHoldToBookingCallback ::
  "(StoreCall \<Rightarrow> bool) \<Rightarrow> nat \<Rightarrow> int \<Rightarrow> Database \<Rightarrow> Database \<times> (Error + unit)" where
  \<comment> \<open>the callback of \<open>convertHoldToBooking\<close>, which updates the hold before it looks for
     the schedule\<close>
  "convertHoldToBookingCallback fails i now db =
     (if fails ConvertFindHold then (db, Inl (StoreFailure ConvertFindHold))
      else
        (case findHold i db of
           None \<Rightarrow> (db, Inl HoldNotFoundOrNotActive)
         | Some hold \<Rightarrow>
             if holdStatus hold \<noteq> ACTIVE then (db, Inl HoldNotFoundOrNotActive)
             else if fails ConvertUpdateHold
             then (db, Inl (StoreFailure ConvertUpdateHold))
             else
               let updated = updateHold i (convertedHold now) db
               in if fails ConvertFindSchedule
                  then (updated, Inl (StoreFailure ConvertFindSchedule))
                  else if busSchedules updated (scheduleId hold) \<noteq> None
                          \<and> fails ConvertUpdateSchedule
                  then (updated, Inl (StoreFailure ConvertUpdateSchedule))
                  else (bookInventory hold updated, Inr ())))"

definition convertHoldToBookingWith ::
  "(StoreCall \<Rightarrow> bool) \<Rightarrow> nat \<Rightarrow> string \<Rightarrow> int \<Rightarrow> Database
     \<Rightarrow> Database \<times> (Error + bool)" where
  \<comment> \<open>\<open>convertHoldToBooking\<close> in a run where the calls in \<open>fails\<close> fail\<close>
  "convertHoldToBookingWith fails i bookingId now db =
     tryCatch
       (\<lambda>db. case transaction fails (convertHoldToBookingCallback fails i now) db of
                (db', Inl e) \<Rightarrow> (db', Inl e)
              | (db', Inr u) \<Rightarrow> (db', Inr True))
       (\<lambda>e. Inr False) db"

definition failsAt :: "StoreCall \<Rightarrow> StoreCall \<Rightarrow> bool" where
  \<comment> \<open>the run in which the call \<open>c\<close> fails and every other call goes through\<close>
  "failsAt c = (\<lambda>call. call = c)"

section \<open>Inventory invariant and runs of operations\<close>

definition inventoryBalanced :: "BusSchedule \<Rightarrow> bool" where
  "inventoryBalanced s =
     (availableSeats s + heldSeats s + bookedSeats s = totalSeats (route s))"

definition allBalanced :: "Database \<Rightarrow> bool" where
  "allBalanced db = (\<forall>sid s. busSchedules db sid = Some s \<longrightarrow> inventoryBalanced s)"

datatype Operation =
    OpHoldSeats HoldSeatsParams int
  | OpReleaseHold nat ReleaseReason int
  | OpConvertHoldToBooking nat string int
  | OpReleaseExpiredHolds int

fun applyOperation :: "Config \<Rightarrow> Operation \<Rightarrow> Database \<Rightarrow> Database" where
  "applyOperation cfg (OpHoldSeats params now) db = fst (holdSeats cfg params now db)"
| "applyOperation cfg (OpReleaseHold i reason now) db = fst (releaseHold i reason now db)"
| "applyOperation cfg (OpConvertHoldToBooking i bookingId now) db =
     fst (convertHoldToBooking i bookingId now db)"
| "applyOperation cfg (OpReleaseExpiredHolds now) db = fst (releaseExpiredHolds now db)"

section \<open>A small schedule\<close>

text \<open>
  One bus schedule of four seats whose partner allows a quarter of them to be held, so
  one seat; the partner's own expiry setting is 30 minutes. Times are small numbers of
  milliseconds after the epoch, except where the time zone matters.
\<close>

definition cfg0 :: Config where
  \<comment> \<open>the defaults of the source, a process running in UTC, a decimal percentage column\<close>
  "cfg0 = \<lparr>DEFAULT_HOLD_EXPIRY_MINUTES = 30, DEFAULT_HOLD_QUOTA_PERCENTAGE = 25,
           LocalTZA = (\<lambda>t isUTC. 0), percentageIsDecimal = True\<rparr>"

definition partner0 :: Partner where
  "partner0 = \<lparr>holdQuotaEnabled = True, holdQuotaPercentage = 25, holdExpiryMinutes = 30\<rparr>"

definition seats0 :: "string \<rightharpoonup> string" where
  "seats0 = [''1A'' \<mapsto> ''AVAILABLE'', ''1B'' \<mapsto> ''AVAILABLE'',
             ''1C'' \<mapsto> ''AVAILABLE'', ''1D'' \<mapsto> ''AVAILABLE'']"

definition schedule0 :: BusSchedule where
  "schedule0 =
     \<lparr>status = ''ACTIVE'', seatStatus = seats0, availableSeats = 4, heldSeats = 0,
      bookedSeats = 0, route = \<lparr>totalSeats = 4, partner = Some partner0\<rparr>\<rparr>"

definition db0 :: Database where
  "db0 = \<lparr>busSchedules = [''S1'' \<mapsto> schedule0], flightSchedules = Map.empty,
          seatHolds = [], nextHoldId = 0\<rparr>"

definition holdRequest :: "string \<Rightarrow> HoldSeatsParams" where
  \<comment> \<open>a request for one seat of the schedule, held for 10 minutes as the booking service asks\<close>
  "holdRequest seat =
     \<lparr>reqScheduleId = ''S1'', reqSeatNumbers = [seat], reqHeldBy = ''user-1'',
      reqCategory = BUS, reqHoldExpiryMinutes = Some 10\<rparr>"

definition hold0 :: SeatHold where
  "hold0 = \<lparr>holdId = 0, scheduleId = ''S1'', seatNumbers = [''1A''], heldBy = ''user-1'',
            holdExpiry = 601000, holdStatus = ACTIVE, releasedAt = None\<rparr>"

definition db1 :: Database where
  \<comment> \<open>\<open>db0\<close> after seat 1A has been held at time 1000\<close>
  "db1 = \<lparr>busSchedules = [''S1'' \<mapsto> holdSchedule [''1A''] schedule0],
          flightSchedules = Map.empty, seatHolds = [hold0], nextHoldId = 1\<rparr>"

definition dbDisabled :: Database where
  \<comment> \<open>\<open>db0\<close> with the hold quota switched off for the partner\<close>
  "dbDisabled =
     db0\<lparr>busSchedules := [''S1'' \<mapsto> schedule0
            \<lparr>route := \<lparr>totalSeats = 4,
                        partner = Some (partner0\<lparr>holdQuotaEnabled := False\<rparr>)\<rparr>\<rparr>]\<rparr>"

definition dbSmallQuota :: Database where
  \<comment> \<open>\<open>db0\<close> with a quota of 10 percent, which is no seat out of four\<close>
  "dbSmallQuota =
     db0\<lparr>busSchedules := [''S1'' \<mapsto> schedule0
            \<lparr>route := \<lparr>totalSeats = 4,
                        partner = Some (partner0\<lparr>holdQuotaPercentage := 10\<rparr>)\<rparr>\<rparr>]\<rparr>"


definition cfgNumber :: Config where
  \<comment> \<open>\<open>cfg0\<close> with the percentage column declared as a floating-point number\<close>
  "cfgNumber = cfg0\<lparr>percentageIsDecimal := False\<rparr>"

definition cfgNewYork :: Config where
  \<comment> \<open>\<open>cfg0\<close> for a process in the zone America/New_York around the end of daylight saving
     time in 2026: the offset is 4 hours before 2026-11-01T06:00:00Z and 5 hours from
     then on; a local time before 02:00 of that day is read with the offset of 4 hours\<close>
  "cfgNewYork =
     cfg0\<lparr>LocalTZA := (\<lambda>t isUTC.
            if isUTC then (if t < 1793512800000 then - 14400000 else - 18000000)
            else (if t < 1793498400000 then - 14400000 else - 18000000))\<rparr>"

definition dbBooked :: Database where
  \<comment> \<open>\<open>db0\<close> with seat 1A sold\<close>
  "dbBooked =
     db0\<lparr>busSchedules := [''S1'' \<mapsto> schedule0
            \<lparr>seatStatus := seats0(''1A'' \<mapsto> ''BOOKED''), availableSeats := 3,
             bookedSeats := 1\<rparr>]\<rparr>"

section \<open>Rounding to binary64\<close>

lemma ilog2_lower:
  assumes "0 < x"
  shows "2 powi (ilog2 x) \<le> x"
proof (cases "1 \<le> x")
  case True
  define n where "n = nat \<lfloor>x\<rfloor>"
  have n1: "0 < n" using True by (simp add: n_def)
  have "2 ^ (floorlog 2 n - 1) \<le> n"
    using floorlog_bounds [where b = 2 and x = n] n1 by simp
  then have "(2::rat) ^ (floorlog 2 n - 1) \<le> rat_of_nat n"
    by (metis of_nat_le_iff of_nat_numeral of_nat_power)
  moreover have "0 < floorlog 2 n" using n1 by (simp add: floorlog_def)
  moreover have "rat_of_nat n \<le> x" using True by (simp add: n_def) 
  moreover have "ilog2 x = int (floorlog 2 n - 1)"
    using True \<open>0 < floorlog 2 n\<close> by (simp add: ilog2_def n_def [symmetric])
  ultimately show ?thesis by (simp only: power_int_of_nat)
next
  case False
  define m where "m = nat (\<lceil>1 / x\<rceil> - 1)"
  define k where "k = floorlog 2 m"
  have e: "ilog2 x = - int k" using False by (simp add: ilog2_def m_def k_def)
  have "1 < 1 / x" using False assms by simp
  then have c2: "2 \<le> \<lceil>1 / x\<rceil>" by linarith
  then have m1: "0 < m" by (simp add: m_def)
  have "m < 2 ^ k"
    using floorlog_bounds [where b = 2 and x = m] m1 by (simp add: k_def)
  then have "Suc m \<le> 2 ^ k" by simp
  then have "rat_of_nat (Suc m) \<le> 2 ^ k"
    by (metis of_nat_le_iff of_nat_numeral of_nat_power)
  moreover have "int (Suc (nat (c - 1))) = c" if "2 \<le> c" for c :: int
    using that by simp
  from this [OF c2] have "int (Suc m) = \<lceil>1 / x\<rceil>"
    by (simp only: m_def)
  then have "rat_of_nat (Suc m) = of_int \<lceil>1 / x\<rceil>"
    by (metis of_int_of_nat_eq)
  moreover have "1 / x \<le> of_int \<lceil>1 / x\<rceil>" by linarith
  ultimately have "1 / x \<le> 2 ^ k" by linarith
  then have "1 \<le> 2 ^ k * x" using assms by (simp add: field_simps)
  then have "1 / 2 ^ k \<le> x" by (simp add: field_simps)
  then show ?thesis by (simp add: e power_int_minus field_simps)
qed

lemma ilog2_less:
  assumes "0 < x" and "x < 2 powi k"
  shows "ilog2 x < k"
proof (rule ccontr)
  assume "\<not> ilog2 x < k"
  then have "k \<le> ilog2 x" by simp
  then have "(2::rat) powi k \<le> 2 powi ilog2 x"
    by (simp add: power_int_increasing)
  with ilog2_lower [OF assms(1)] assms(2) show False by simp
qed

lemma ulp_pos: "0 < ulp x"
  by (simp add: ulp_def)

lemma ulp_reciprocal:
  assumes "0 < x" and "x < 2 ^ 53"
  shows "\<exists>n::int. 0 < n \<and> ulp x * of_int n = 1"
proof -
  have "ilog2 x < 53" using ilog2_less [of x 53] assms by simp
  define d where "d = nat (52 - max (ilog2 x) (- 1022))"
  have d: "max (ilog2 x) (- 1022) - 52 = - int d"
    using \<open>ilog2 x < 53\<close> by (simp add: d_def)
  have "ulp x * of_int (2 ^ d) = 1"
    by (simp add: ulp_def d power_int_minus)
  moreover have "(0::int) < 2 ^ d" by simp
  ultimately show ?thesis by blast
qed

lemma roundHalfEven_le: "y \<le> of_int k \<Longrightarrow> roundHalfEven y \<le> k"
  unfolding roundHalfEven_def Let_def by (auto; linarith)

lemma roundHalfEven_ge: "of_int k \<le> y \<Longrightarrow> k \<le> roundHalfEven y"
  unfolding roundHalfEven_def Let_def by (auto; linarith)

lemma roundHalfEven_upper: "of_int (roundHalfEven y) \<le> y + 1 / 2"
  unfolding roundHalfEven_def Let_def by (auto; linarith)

lemma double_round_le_int:
  assumes "0 \<le> x" and "x \<le> of_int M" and "x < 2 ^ 53"
  shows "double_round x \<le> of_int M"
proof (cases "x = 0")
  case True
  then show ?thesis using assms by (simp add: double_round_def)
next
  case False
  then have pos: "0 < x" using assms by simp
  obtain n :: int where n: "0 < n" "ulp x * of_int n = 1"
    using ulp_reciprocal [OF pos assms(3)] by blast
  have inv: "x / ulp x = x * of_int n"
    using n ulp_pos [of x] by (simp add: field_simps)
  have "x * of_int n \<le> of_int (M * n)" using assms(2) n(1) by simp
  then have "roundHalfEven (x / ulp x) \<le> M * n"
    using roundHalfEven_le inv by simp
  then have "rat_of_int (roundHalfEven (x / ulp x)) \<le> of_int (M * n)"
    using of_int_le_iff by blast
  then have "of_int (roundHalfEven (x / ulp x)) * ulp x \<le> of_int (M * n) * ulp x"
    using ulp_pos [of x] by (simp del: of_int_mult)
  also have "\<dots> = of_int M" using n(2) by (simp add: mult.assoc mult.commute)
  finally show ?thesis using pos by (simp add: double_round_def)
qed

lemma double_round_ge_int:
  assumes "0 \<le> x" and "of_int M \<le> x" and "x < 2 ^ 53"
  shows "of_int M \<le> double_round x"
proof (cases "x = 0")
  case True
  then show ?thesis using assms by (simp add: double_round_def)
next
  case False
  then have pos: "0 < x" using assms by simp
  obtain n :: int where n: "0 < n" "ulp x * of_int n = 1"
    using ulp_reciprocal [OF pos assms(3)] by blast
  have inv: "x / ulp x = x * of_int n"
    using n ulp_pos [of x] by (simp add: field_simps)
  have "of_int (M * n) \<le> x * of_int n" using assms(2) n(1) by simp
  then have "M * n \<le> roundHalfEven (x / ulp x)"
    using roundHalfEven_ge inv by simp
  then have "of_int (M * n) \<le> rat_of_int (roundHalfEven (x / ulp x))"
    using of_int_le_iff by blast
  then have le: "of_int (M * n) * ulp x \<le> of_int (roundHalfEven (x / ulp x)) * ulp x"
    using ulp_pos [of x] by (simp del: of_int_mult)
  have "of_int M = of_int (M * n) * ulp x"
    using n(2) by (simp add: mult.assoc mult.commute)
  also note le
  finally show ?thesis using pos by (simp add: double_round_def)
qed

lemma double_round_of_int:
  assumes "0 \<le> n" and "n < 2 ^ 53"
  shows "double_round (of_int n) = of_int n"
proof -
  have "rat_of_int n < 2 ^ 53" using assms(2)
    by (metis of_int_less_iff of_int_numeral of_int_power)
  then show ?thesis
    using double_round_le_int [of "of_int n" n] double_round_ge_int [of "of_int n" n] assms(1) by simp
qed


lemma ulp_small:
  assumes "0 < x" and "x < 2 ^ 47"
  shows "ulp x \<le> 1 / 64"
proof -
  have "ilog2 x < 47" using ilog2_less [of x 47] assms by simp
  then have "max (ilog2 x) (- 1022) - 52 \<le> - 6" by simp
  then have "(2::rat) powi (max (ilog2 x) (- 1022) - 52) \<le> 2 powi (- 6)"
    by (simp only: power_int_increasing one_le_numeral)
  then show ?thesis by (simp add: ulp_def power_int_minus)
qed

lemma double_round_upper:
  assumes "0 < x"
  shows "double_round x \<le> x + ulp x / 2"
proof -
  have "of_int (roundHalfEven (x / ulp x)) * ulp x \<le> (x / ulp x + 1 / 2) * ulp x"
    using roundHalfEven_upper [of "x / ulp x"] ulp_pos [of x] by simp
  also have "\<dots> = x + ulp x / 2"
    using ulp_pos [of x] by (simp add: field_simps)
  finally show ?thesis using assms by (simp add: double_round_def)
qed

lemma floor_js_div_100:
  assumes "0 \<le> n" and "n < 2 ^ 53"
  shows "\<lfloor>double_round (of_int n / 100)\<rfloor> = n div 100"
proof -
  define x :: rat where "x = of_int n / 100"
  define q where "q = n div 100"
  have n: "n = 100 * q + n mod 100" by (simp add: q_def)
  have "0 \<le> n mod 100" "n mod 100 \<le> 99" by simp_all
  then have xq: "of_int q \<le> x" "x \<le> of_int q + 99 / 100"
    unfolding x_def by (subst n, simp add: field_simps)+
  have x0: "0 \<le> x" using assms(1) by (simp add: x_def)
  have "rat_of_int n < 2 ^ 53" using assms(2)
    by (metis of_int_less_iff of_int_numeral of_int_power)
  then have x47: "x < 2 ^ 47" by (simp add: x_def)
  then have x53: "x < 2 ^ 53" by simp
  have lo: "of_int q \<le> double_round x" using double_round_ge_int [OF x0 xq(1) x53] .
  have hi: "double_round x < of_int q + 1"
  proof (cases "x = 0")
    case True
    then have "0 \<le> q" using xq(2) assms(1) by (simp add: q_def)
    then show ?thesis using True by (simp add: double_round_def)
  next
    case False
    then have pos: "0 < x" using x0 by simp
    have "double_round x \<le> x + ulp x / 2" using double_round_upper [OF pos] .
    also have "\<dots> \<le> of_int q + 99 / 100 + 1 / 128"
      using xq(2) ulp_small [OF pos x47] by simp
    also have "\<dots> < of_int q + 1" by simp
    finally show ?thesis .
  qed
  have "\<lfloor>double_round x\<rfloor> = q" using lo hi by (simp add: floor_unique)
  then show ?thesis by (simp add: x_def q_def)
qed

lemma calculateMaxHolds_integer_percentage:
  assumes "0 \<le> t" and "0 \<le> p" and "t * p < 2 ^ 53"
  shows "calculateMaxHolds t (of_int p) = t * p div 100"
proof -
  have "double_round (of_int t * of_int p) = of_int (t * p)"
    using double_round_of_int [of "t * p"] assms by simp
  then show ?thesis
    using floor_js_div_100 [of "t * p"] assms by (simp add: calculateMaxHolds_def js_mul_def js_div_def)
qed

lemma calculateMaxHolds_le_totalSeats:
  assumes "0 \<le> t" and "t * 100 < 2 ^ 53" and "0 \<le> pct" and "pct \<le> 100"
  shows "calculateMaxHolds t pct \<le> t"
proof -
  define y :: rat where "y = of_int t * pct"
  have y0: "0 \<le> y" using assms by (simp add: y_def)
  have yM: "y \<le> of_int (t * 100)"
    using assms by (simp add: y_def mult_left_mono)
  have M53: "rat_of_int (t * 100) < 2 ^ 53" using assms(2)
    by (metis of_int_less_iff of_int_numeral of_int_power)
  then have y53: "y < 2 ^ 53" using yM by linarith
  have f1: "double_round y \<le> of_int (t * 100)" using double_round_le_int [OF y0 yM y53] .
  have f0: "0 \<le> double_round y" using double_round_ge_int [OF y0 _ y53, of 0] y0 by simp
  define z where "z = double_round y / 100"
  have z0: "0 \<le> z" using f0 by (simp add: z_def)
  have zt: "z \<le> of_int t" using f1 by (simp add: z_def)
  have "z < 2 ^ 53" using zt f1 M53 z0 by (simp add: z_def)
  then have "double_round z \<le> of_int t" using double_round_le_int [OF z0 zt] by simp
  then have "\<lfloor>double_round z\<rfloor> \<le> t" by (simp add: floor_le_iff) 
  then show ?thesis by (simp add: calculateMaxHolds_def js_mul_def js_div_def z_def y_def)
qed

lemma ilog2_upper:
  assumes "0 < x"
  shows "x < 2 powi (ilog2 x + 1)"
proof (cases "1 \<le> x")
  case True
  define n where "n = nat \<lfloor>x\<rfloor>"
  have n1: "0 < n" using True by (simp add: n_def)
  have "n < 2 ^ floorlog 2 n"
    using floorlog_bounds [where b = 2 and x = n] n1 by simp
  then have "Suc n \<le> 2 ^ floorlog 2 n" by simp
  then have "rat_of_nat (Suc n) \<le> 2 ^ floorlog 2 n"
    by (metis of_nat_le_iff of_nat_numeral of_nat_power)
  moreover have "x < rat_of_nat (Suc n)" using True unfolding n_def by simp linarith
  moreover have "ilog2 x + 1 = int (floorlog 2 n)"
    using True by (simp add: ilog2_def n_def [symmetric])
  ultimately show ?thesis by (simp only: power_int_of_nat)
next
  case False
  define m where "m = nat (\<lceil>1 / x\<rceil> - 1)"
  define k where "k = floorlog 2 m"
  have e: "ilog2 x = - int k" using False by (simp add: ilog2_def m_def k_def)
  have "1 < 1 / x" using False assms by simp
  then have c2: "2 \<le> \<lceil>1 / x\<rceil>" by linarith
  then have m1: "0 < m" by (simp add: m_def)
  then have k1: "0 < k" by (simp add: k_def floorlog_def)
  have "2 ^ (k - 1) \<le> m"
    using floorlog_bounds [where b = 2 and x = m] m1 by (simp add: k_def)
  then have "(2::rat) ^ (k - 1) \<le> rat_of_nat m"
    by (metis of_nat_le_iff of_nat_numeral of_nat_power)
  moreover have "int (nat (c - 1)) = c - 1" if "2 \<le> c" for c :: int
    using that by simp
  from this [OF c2] have "int m = \<lceil>1 / x\<rceil> - 1"
    by (simp only: m_def)
  then have "rat_of_nat m = of_int (\<lceil>1 / x\<rceil> - 1)"
    by (metis of_int_of_nat_eq)
  moreover have "of_int (\<lceil>1 / x\<rceil> - 1) < 1 / x" by simp linarith
  ultimately have "(2::rat) ^ (k - 1) < 1 / x" by linarith
  then have "2 ^ (k - 1) * x < 1" using assms by (simp add: field_simps)
  then have "x < 1 / 2 ^ (k - 1)" by (simp add: field_simps)
  moreover have "ilog2 x + 1 = - int (k - 1)" using e k1 by simp
  ultimately show ?thesis by (simp only: power_int_minus power_int_of_nat inverse_eq_divide)
qed

lemma ilog2_eqI:
  assumes "2 powi e \<le> x" and "x < 2 powi (e + 1)"
  shows "ilog2 x = e"
proof -
  have "(0::rat) < 2 powi e" by simp
  then have pos: "0 < x" using assms(1) by linarith
  have "ilog2 x < e + 1" using ilog2_less [OF pos assms(2)] .
  moreover have "e < ilog2 x + 1"
  proof (rule ccontr)
    assume "\<not> e < ilog2 x + 1"
    then have "ilog2 x + 1 \<le> e" by simp
    then have "(2::rat) powi (ilog2 x + 1) \<le> 2 powi e"
      by (simp only: power_int_increasing one_le_numeral)
    with ilog2_upper [OF pos] assms(1) show False by simp
  qed
  ultimately show ?thesis by simp
qed


lemma roundHalfEven_eqI:
  assumes "\<bar>y - of_int k\<bar> < 1 / 2"
  shows "roundHalfEven y = k"
proof -
  have "k \<le> roundHalfEven y"
  proof (rule ccontr)
    assume "\<not> k \<le> roundHalfEven y"
    then have "roundHalfEven y \<le> k - 1" by simp
    moreover have "y - 1 / 2 \<le> of_int (roundHalfEven y)"
      unfolding roundHalfEven_def Let_def by (auto; linarith)
    ultimately show False using assms by (simp add: abs_less_iff; linarith)
  qed
  moreover have "roundHalfEven y \<le> k"
  proof (rule ccontr)
    assume "\<not> roundHalfEven y \<le> k"
    then have "k + 1 \<le> roundHalfEven y" by simp
    then show False using roundHalfEven_upper [of y] assms by (simp add: abs_less_iff; linarith)
  qed
  ultimately show ?thesis by simp
qed

lemma double_round_eqI:
  assumes "2 powi e \<le> x" and "x < 2 powi (e + 1)" and "- 1022 \<le> e"
    and "\<bar>x / 2 powi (e - 52) - of_int k\<bar> < 1 / 2"
  shows "double_round x = of_int k * 2 powi (e - 52)"
proof -
  have "(0::rat) < 2 powi e" by simp
  then have pos: "0 < x" using assms(1) by linarith
  have "ilog2 x = e" using ilog2_eqI [OF assms(1,2)] .
  then have u: "ulp x = 2 powi (e - 52)" using assms(3) by (simp add: ulp_def)
  show ?thesis
    using pos roundHalfEven_eqI [OF assms(4)] by (simp add: double_round_def u)
qed

lemma double_round_2_4: "double_round (12 / 5) = 5404319552844595 / 2 ^ 51"
  using double_round_eqI [of 1 "12 / 5" 5404319552844595]
  by (simp add: power_int_minus)

lemma double_round_18_4: "double_round (92 / 5) = 5179139571476070 / 2 ^ 48"
  using double_round_eqI [of 4 "92 / 5" 5179139571476070]
  by (simp add: power_int_minus)

lemma calculateMaxHolds_125: "calculateMaxHolds 125 (5404319552844595 / 2 ^ 51) = 3"
proof -
  have "js_mul 125 (5404319552844595 / 2 ^ 51) = 300"
    unfolding js_mul_def
    using double_round_eqI [of 8 "125 * (5404319552844595 / 2 ^ 51)" 5277655813324800]
    by (simp add: power_int_minus)
  moreover have "js_div 300 100 = 3"
    unfolding js_div_def using double_round_of_int [of 3] by simp
  ultimately show ?thesis by (simp add: calculateMaxHolds_def)
qed

lemma calculateMaxHolds_375: "calculateMaxHolds 375 (5179139571476070 / 2 ^ 48) = 68"
proof -
  have a: "js_mul 375 (5179139571476070 / 2 ^ 48) = 7586630231654399 / 2 ^ 40"
    unfolding js_mul_def
    using double_round_eqI [of 12 "375 * (5179139571476070 / 2 ^ 48)" 7586630231654399]
    by (simp add: power_int_minus)
  have b: "js_div (7586630231654399 / 2 ^ 40) 100 = 4855443348258815 / 2 ^ 46"
    unfolding js_div_def
    using double_round_eqI [of 6 "7586630231654399 / 2 ^ 40 / 100" 4855443348258815]
    by (simp add: power_int_minus)
  have c: "\<lfloor>4855443348258815 / 2 ^ 46 :: rat\<rfloor> = 68"
    by (simp add: floor_unique)
  show ?thesis
    unfolding calculateMaxHolds_def by (simp only: of_int_numeral a b c)
qed

section \<open>The quota calculator\<close>

text \<open>
  C3, as stated: for all integers \<open>totalSeats \<ge> 0\<close> and all percentages
  \<open>0 \<le> pct \<le> 100\<close>, \<open>calculateMaxHolds totalSeats pct\<close> equals
  \<open>floor (totalSeats * pct / 100)\<close>. The product and the quotient are rounded to binary64,
  so the equation fails for some fractional percentages. With 125 seats and the
  percentage 2.4 (the binary64 value nearest to it, which lies just below 2.4) the
  product rounds up to 300 and the code returns 3, where the floor of the exact quotient
  is 2. With 375 seats and the percentage 18.4 the product rounds to a value just below
  6900 and the code returns 68, where \<open>floor (375 * 18.4 / 100)\<close> is 69.
\<close>

theorem calculateMaxHolds_floor_counterexample:
  "0 \<le> double_round (12 / 5) \<and> double_round (12 / 5) \<le> 100
   \<and> calculateMaxHolds 125 (double_round (12 / 5))
       \<noteq> \<lfloor>of_int 125 * double_round (12 / 5) / 100\<rfloor>
   \<and> calculateMaxHolds 375 (double_round (92 / 5)) \<noteq> \<lfloor>of_int 375 * (92 / 5) / 100 :: rat\<rfloor>"
proof -
  have e1: "calculateMaxHolds 125 (double_round (12 / 5)) = 3"
    by (simp only: double_round_2_4 calculateMaxHolds_125)
  have e2: "calculateMaxHolds 375 (double_round (92 / 5)) = 68"
    by (simp only: double_round_18_4 calculateMaxHolds_375)
  have e3: "\<lfloor>rat_of_int 125 * double_round (12 / 5) / 100\<rfloor> = 2"
    unfolding double_round_2_4 by (simp add: floor_unique)
  have e4: "\<lfloor>rat_of_int 375 * (92 / 5) / 100\<rfloor> = 69"
    by simp
  have bounds: "0 \<le> double_round (12 / 5) \<and> double_round (12 / 5) \<le> 100"
    unfolding double_round_2_4 by simp
  show ?thesis
    unfolding e1 e2 e3 e4 using bounds by simp
qed

text \<open>
  C3, amended: for every integer \<open>0 \<le> totalSeats < 2 ^ 31\<close> and every percentage
  \<open>0 \<le> pct \<le> 100\<close>, \<open>calculateMaxHolds totalSeats pct \<le> totalSeats\<close>; and when the
  percentage is a whole number, \<open>calculateMaxHolds totalSeats pct\<close> equals
  \<open>floor (totalSeats * pct / 100)\<close>. The function is a total function of its two
  arguments: it reads and writes no state and has no error result.
\<close>

theorem calculateMaxHolds_floor_and_bound:
  assumes "0 \<le> seats" and "seats < 2 ^ 31" and "0 \<le> pct" and "pct \<le> 100"
  shows "calculateMaxHolds seats pct \<le> seats
    \<and> (pct \<in> \<int> \<longrightarrow> calculateMaxHolds seats pct = \<lfloor>of_int seats * pct / 100\<rfloor>)"
proof (intro conjI impI)
  have small: "seats * 100 < 2 ^ 53" using assms(2) by simp
  show "calculateMaxHolds seats pct \<le> seats"
    using calculateMaxHolds_le_totalSeats [OF assms(1) small assms(3,4)] .
  assume "pct \<in> \<int>"
  then obtain p :: int where p: "pct = of_int p" by (auto elim: Ints_cases)
  have p0: "0 \<le> p" and p100: "p \<le> 100" using assms(3,4) by (simp_all add: p)
  have "seats * p \<le> seats * 100"
    using assms(1) p100 by (simp add: mult_left_mono)
  then have "seats * p < 2 ^ 53" using small by linarith
  then have "calculateMaxHolds seats pct = seats * p div 100"
    using calculateMaxHolds_integer_percentage [OF assms(1) p0] by (simp add: p)
  also have "\<dots> = \<lfloor>rat_of_int (seats * p) / rat_of_int 100\<rfloor>"
    by (simp only: floor_divide_of_int_eq)
  finally show "calculateMaxHolds seats pct = \<lfloor>of_int seats * pct / 100\<rfloor>"
    by (simp add: p)
qed

theorem calculateMaxHolds_floor_and_bound_witness:
  "calculateMaxHolds 100 25 \<le> 100 \<and> calculateMaxHolds 100 25 = 25"
  using calculateMaxHolds_floor_and_bound [of 100 25] by simp

section \<open>The inventory invariant is preserved\<close>

lemma markSeats_apply:
  "markSeats v seats m seat = (if seat \<in> set seats then Some v else m seat)"
  unfolding markSeats_def by (induction seats arbitrary: m) auto

lemma releaseSeats_apply:
  "releaseSeats seats m seat =
     (if seat \<in> set seats \<and> m seat = Some ''HELD'' then Some ''AVAILABLE'' else m seat)"
  unfolding releaseSeats_def by (induction seats arbitrary: m) auto

lemma holdSeatsTx_balanced:
  assumes "allBalanced db" and "holdSeatsTx params expiry db = Inr (db', hold)"
  shows "allBalanced db'"
  using assms unfolding holdSeatsTx_def allBalanced_def inventoryBalanced_def
  by (auto simp: holdSchedule_def split: Category.splits option.splits if_splits)

lemma holdSeatsAfterCheck_balanced:
  assumes "allBalanced db"
  shows "allBalanced (fst (holdSeatsAfterCheck cfg params now q db))"
  using assms holdSeatsTx_balanced unfolding holdSeatsAfterCheck_def
  by (auto split: sum.splits)

lemma holdSeats_balanced:
  assumes "allBalanced db"
  shows "allBalanced (fst (holdSeats cfg params now db))"
  using assms holdSeatsAfterCheck_balanced unfolding holdSeats_def
  by (auto split: sum.splits)

lemma updateHold_busSchedules [simp]: "busSchedules (updateHold i f db) = busSchedules db"
  by (simp add: updateHold_def)

lemma allBalanced_updateHold [simp]: "allBalanced (updateHold i f db) = allBalanced db"
  by (simp add: allBalanced_def)

lemma allBalanced_update:
  assumes "allBalanced db" and "inventoryBalanced s'"
    and "busSchedules db' = (busSchedules db)(sid \<mapsto> s')"
  shows "allBalanced db'"
  using assms by (simp add: allBalanced_def)

lemma releaseInventory_balanced:
  assumes "allBalanced db"
  shows "allBalanced (releaseInventory hold db)"
proof (cases "busSchedules db (scheduleId hold)")
  case None
  then show ?thesis using assms by (simp add: releaseInventory_def releaseScheduleOf_def)
next
  case (Some schedule)
  then have "inventoryBalanced schedule" using assms by (simp add: allBalanced_def)
  then have "inventoryBalanced (releaseSchedule (seatNumbers hold) schedule)"
    by (simp add: inventoryBalanced_def releaseSchedule_def)
  then show ?thesis
    using allBalanced_update [OF assms] Some
    by (simp add: releaseInventory_def releaseScheduleOf_def)
qed

lemma bookInventory_balanced:
  assumes "allBalanced db"
  shows "allBalanced (bookInventory hold db)"
proof (cases "busSchedules db (scheduleId hold)")
  case None
  then show ?thesis using assms by (simp add: bookInventory_def)
next
  case (Some schedule)
  then have "inventoryBalanced schedule" using assms by (simp add: allBalanced_def)
  then have "inventoryBalanced (bookSchedule (seatNumbers hold) schedule)"
    by (simp add: inventoryBalanced_def bookSchedule_def)
  then show ?thesis
    using allBalanced_update [OF assms] Some by (simp add: bookInventory_def)
qed

lemma releaseHoldTx_balanced:
  assumes "allBalanced db" and "releaseHoldTx i reason now db = Inr db'"
  shows "allBalanced db'"
  using assms releaseInventory_balanced unfolding releaseHoldTx_def
  by (auto split: option.splits if_splits)

lemma releaseHold_balanced:
  assumes "allBalanced db"
  shows "allBalanced (fst (releaseHold i reason now db))"
  using assms releaseHoldTx_balanced unfolding releaseHold_def
  by (auto split: sum.splits)

lemma convertHoldToBookingTx_balanced:
  assumes "allBalanced db" and "convertHoldToBookingTx i now db = Inr db'"
  shows "allBalanced db'"
  using assms bookInventory_balanced [of "updateHold i (convertedHold now) db"]
  unfolding convertHoldToBookingTx_def
  by (auto split: option.splits if_splits)

lemma convertHoldToBooking_balanced:
  assumes "allBalanced db"
  shows "allBalanced (fst (convertHoldToBooking i bookingId now db))"
  using assms convertHoldToBookingTx_balanced unfolding convertHoldToBooking_def
  by (auto split: sum.splits)

lemma releaseEach_balanced:
  assumes "allBalanced db"
  shows "allBalanced (fst (releaseEach holds now db c))"
  using assms
proof (induction holds arbitrary: db c)
  case Nil
  then show ?case by simp
next
  case (Cons hold rest)
  obtain db1 ok where r: "releaseHold (holdId hold) REASON_EXPIRED now db = (db1, ok)"
    by fastforce
  have "allBalanced db1"
    using releaseHold_balanced [OF Cons.prems, of "holdId hold" REASON_EXPIRED now] r by simp
  then show ?case using Cons.IH r by simp
qed

lemma releaseExpiredHolds_balanced:
  assumes "allBalanced db"
  shows "allBalanced (fst (releaseExpiredHolds now db))"
  using assms releaseEach_balanced by (simp add: releaseExpiredHolds_def)

lemma applyOperation_balanced:
  assumes "allBalanced db"
  shows "allBalanced (applyOperation cfg operation db)"
  using assms
  by (cases operation)
    (simp_all add: holdSeats_balanced releaseHold_balanced convertHoldToBooking_balanced
      releaseExpiredHolds_balanced)

lemma run_balanced:
  assumes "allBalanced db"
  shows "allBalanced (fold (applyOperation cfg) ops db)"
  using assms by (induction ops arbitrary: db) (simp_all add: applyOperation_balanced)

section \<open>Local time arithmetic\<close>

lemma double_round_minus: "double_round (- x) = - double_round x"
  by (simp add: double_round_def)

lemma js_integral_exact:
  assumes "\<bar>n\<bar> < 9007199254740992"
  shows "js_integral n = n"
proof (cases "0 \<le> n")
  case True
  then have "double_round (of_int n) = of_int n"
    using double_round_of_int [of n] assms by simp
  then show ?thesis by (simp add: js_integral_def)
next
  case False
  then have "double_round (of_int (- n)) = of_int (- n)"
    using double_round_of_int [of "- n"] assms by simp
  then have "double_round (of_int n) = of_int n"
    using double_round_minus [of "of_int n"] by simp
  then show ?thesis by (simp add: js_integral_def)
qed

lemma js_plus_exact: "\<bar>a + b\<bar> < 9007199254740992 \<Longrightarrow> js_plus a b = a + b"
  by (simp add: js_plus_def js_integral_exact)

lemma js_times_exact: "\<bar>a * b\<bar> < 9007199254740992 \<Longrightarrow> js_times a b = a * b"
  by (simp add: js_times_def js_integral_exact)

lemma div_mod_step:
  fixes t a b :: int
  assumes "0 < a" and "0 < b"
  shows "(t div a) mod b * a + t mod a = t mod (a * b)"
proof -
  have "0 \<le> b" using assms(2) by simp
  then have "t mod (a * b) = a * (t div a mod b) + t mod a"
    by (rule zmod_zmult2_eq [where a = t and b = a and c = b])
  then show ?thesis by (simp only: mult.commute)
qed

lemma local_time_parts:
  assumes t: "\<bar>t\<bar> \<le> 8640000086400000" and m: "\<bar>m\<bar> \<le> 1000000000"
  shows "MakeDate (Day t)
      (MakeTime (HourFromTime t) (js_plus (MinFromTime t) m) (SecFromTime t) (msFromTime t))
     = t + m * 60000"
proof -
  define d where "d = t div 86400000"
  define h where "h = (t div 3600000) mod 24"
  define mi where "mi = (t div 60000) mod 60"
  define s where "s = (t div 1000) mod 60"
  define ms where "ms = t mod 1000"
  define r1 where "r1 = t mod 60000"
  define r2 where "r2 = t mod 3600000"
  define r3 where "r3 = t mod 86400000"
  have e1: "s * 1000 + ms = r1"
    using div_mod_step [of 1000 60 t] by (simp add: s_def ms_def r1_def)
  have e2: "mi * 60000 + r1 = r2"
    using div_mod_step [of 60000 60 t] by (simp add: mi_def r1_def r2_def)
  have e3: "h * 3600000 + r2 = r3"
    using div_mod_step [of 3600000 24 t] by (simp add: h_def r2_def r3_def)
  have e4: "d * 86400000 + r3 = t"
    by (simp add: d_def r3_def)
  have bh: "0 \<le> h" "h < 24" by (simp_all add: h_def)
  have bmi: "0 \<le> mi" "mi < 60" by (simp_all add: mi_def)
  have bs: "0 \<le> s" "s < 60" by (simp_all add: s_def)
  have bms: "0 \<le> ms" "ms < 1000" by (simp_all add: ms_def)
  have br3: "0 \<le> r3" "r3 < 86400000" by (simp_all add: r3_def)
  define k where "k = mi + m"
  have bk: "\<bar>k\<bar> \<le> 1000000060"
    unfolding k_def using bmi m by linarith
  have a1: "js_plus mi m = k"
    unfolding k_def by (rule js_plus_exact) (use bmi m in linarith)
  have a2: "js_times h 3600000 = h * 3600000"
    by (rule js_times_exact) (use bh in linarith)
  have a3: "js_times k 60000 = k * 60000"
    by (rule js_times_exact) (use bk in linarith)
  have a4: "js_times s 1000 = s * 1000"
    by (rule js_times_exact) (use bs in linarith)
  have a5: "js_plus (h * 3600000) (k * 60000) = h * 3600000 + k * 60000"
    by (rule js_plus_exact) (use bh bk in linarith)
  have a6: "js_plus (h * 3600000 + k * 60000) (s * 1000)
      = h * 3600000 + k * 60000 + s * 1000"
    by (rule js_plus_exact) (use bh bk bs in linarith)
  have a7: "js_plus (h * 3600000 + k * 60000 + s * 1000) ms
      = h * 3600000 + k * 60000 + s * 1000 + ms"
    by (rule js_plus_exact) (use bh bk bs bms in linarith)
  have a8: "js_times d 86400000 = d * 86400000"
    by (rule js_times_exact) (use e4 br3 t in linarith)
  have a9: "js_plus (d * 86400000) (h * 3600000 + k * 60000 + s * 1000 + ms)
      = d * 86400000 + (h * 3600000 + k * 60000 + s * 1000 + ms)"
    by (rule js_plus_exact) (use e4 br3 bh bk bs bms t in linarith)
  have "MakeDate (Day t)
      (MakeTime (HourFromTime t) (js_plus (MinFromTime t) m) (SecFromTime t) (msFromTime t))
      = MakeDate d (MakeTime h (js_plus mi m) s ms)"
    by (simp only: Day_def HourFromTime_def MinFromTime_def SecFromTime_def msFromTime_def
        d_def h_def mi_def s_def ms_def)
  also have "\<dots> = d * 86400000 + (h * 3600000 + k * 60000 + s * 1000 + ms)"
    by (simp only: MakeDate_def MakeTime_def a1 a2 a3 a4 a5 a6 a7 a8 a9)
  also have "\<dots> = t + m * 60000"
    using e1 e2 e3 e4 by (simp add: k_def algebra_simps)
  finally show ?thesis .
qed

lemma setMinutes_getMinutes:
  assumes now: "\<bar>now\<bar> \<le> 8640000000000000"
    and m: "\<bar>m\<bar> \<le> 1000000000"
    and here: "\<bar>LocalTZA cfg now True\<bar> \<le> 86400000"
    and there: "\<bar>LocalTZA cfg (now + LocalTZA cfg now True + m * 60000) False\<bar> \<le> 86400000"
  shows "setMinutes cfg now (js_plus (getMinutes cfg now) m) =
     TimeClip (now + LocalTZA cfg now True + m * 60000
       - LocalTZA cfg (now + LocalTZA cfg now True + m * 60000) False)"
proof -
  define local where "local = now + LocalTZA cfg now True"
  have l: "LocalTime cfg now = local"
    unfolding LocalTime_def local_def
    by (rule js_plus_exact) (use now here in linarith)
  have bl: "\<bar>local\<bar> \<le> 8640000086400000"
    unfolding local_def using now here by linarith
  have u: "UTC cfg (local + m * 60000)
      = local + m * 60000 - LocalTZA cfg (local + m * 60000) False"
    unfolding UTC_def
    using js_plus_exact [of "local + m * 60000" "- LocalTZA cfg (local + m * 60000) False"]
      bl m there
    unfolding local_def by linarith
  show ?thesis
    unfolding setMinutes_def getMinutes_def Let_def l local_time_parts [OF bl m] u
    unfolding local_def ..
qed

lemma holdExpiryAt_local:
  assumes "\<bar>now\<bar> \<le> 8640000000000000"
    and "m = (case reqHoldExpiryMinutes params of
                None \<Rightarrow> DEFAULT_HOLD_EXPIRY_MINUTES cfg | Some k \<Rightarrow> k)"
    and "\<bar>m\<bar> \<le> 1000000000"
    and "\<bar>LocalTZA cfg now True\<bar> \<le> 86400000"
    and "\<bar>LocalTZA cfg (now + LocalTZA cfg now True + m * 60000) False\<bar> \<le> 86400000"
  shows "holdExpiryAt cfg params now =
     TimeClip (now + LocalTZA cfg now True + m * 60000
       - LocalTZA cfg (now + LocalTZA cfg now True + m * 60000) False)"
  unfolding holdExpiryAt_def assms(2) [symmetric]
  by (rule setMinutes_getMinutes [OF assms(1,3,4,5)])

section \<open>Evaluating the small schedule\<close>

lemma calculateMaxHolds_4_25: "calculateMaxHolds 4 25 = 1"
  using calculateMaxHolds_integer_percentage [of 4 25] by simp

lemma cfg0_fields [simp]:
  "DEFAULT_HOLD_EXPIRY_MINUTES cfg0 = 30" "DEFAULT_HOLD_QUOTA_PERCENTAGE cfg0 = 25"
  "LocalTZA cfg0 t isUTC = 0" "percentageIsDecimal cfg0"
  by (simp_all add: cfg0_def)

lemma double_round_25: "double_round 25 = 25"
  using double_round_of_int [of 25] by simp

lemma double_round_10: "double_round 10 = 10"
  using double_round_of_int [of 10] by simp

lemma policyQuotaPercentage_cfg0:
  "policyQuotaPercentage cfg0 p = double_round (holdQuotaPercentage p)"
  by (simp add: policyQuotaPercentage_def percentageTruthy_def percentageToNumber_def)

lemma holdExpiryAt_cfg0: "holdExpiryAt cfg0 (holdRequest seat) 1000 = Some 601000"
  using holdExpiryAt_local
    [where now = 1000 and m = 10 and params = "holdRequest seat" and cfg = cfg0]
  by (simp add: TimeClip_def holdRequest_def)

lemma quota_db0:
  "isHoldQuotaAvailable cfg0 ''S1'' 1 BUS db0
     = Inr \<lparr>available = True, maxAllowed = 1, currentHeld = 0\<rparr>"
  by (simp add: isHoldQuotaAvailable_def loadQuotaInputs_def db0_def schedule0_def
      partner0_def policyQuotaPercentage_cfg0 double_round_25 calculateMaxHolds_4_25)

lemma quota_db1:
  "isHoldQuotaAvailable cfg0 ''S1'' 1 BUS db1
     = Inr \<lparr>available = False, maxAllowed = 1, currentHeld = 1\<rparr>"
  by (simp add: isHoldQuotaAvailable_def loadQuotaInputs_def db1_def schedule0_def
      holdSchedule_def partner0_def policyQuotaPercentage_cfg0 double_round_25
      calculateMaxHolds_4_25)

lemma holdRequest_fields [simp]:
  "reqScheduleId (holdRequest seat) = ''S1''"
  "reqSeatNumbers (holdRequest seat) = [seat]"
  "reqHeldBy (holdRequest seat) = ''user-1''"
  "reqCategory (holdRequest seat) = BUS"
  "reqHoldExpiryMinutes (holdRequest seat) = Some 10"
  by (simp_all add: holdRequest_def)

lemma holdSeatsTx_db0:
  "holdSeatsTx (holdRequest ''1A'') (Some 601000) db0 = Inr (db1, hold0)"
  by (simp add: holdSeatsTx_def db0_def db1_def schedule0_def seats0_def newHold_def
      hold0_def)

lemma holdSeatsAfterCheck_db0:
  "holdSeatsAfterCheck cfg0 (holdRequest ''1A'') 1000
     \<lparr>available = True, maxAllowed = 1, currentHeld = 0\<rparr> db0 =
     (db1, \<lparr>success = True, resultHoldId = Some 0, resultSeatNumbers = [''1A''],
            resultHoldExpiry = 601000, message = SeatsHeldSuccessfully\<rparr>)"
  by (simp add: holdSeatsAfterCheck_def holdExpiryAt_cfg0 holdSeatsTx_db0 hold0_def)

lemma holdSeats_db0:
  "holdSeats cfg0 (holdRequest ''1A'') 1000 db0 =
     (db1, \<lparr>success = True, resultHoldId = Some 0, resultSeatNumbers = [''1A''],
            resultHoldExpiry = 601000, message = SeatsHeldSuccessfully\<rparr>)"
  by (simp add: holdSeats_def quota_db0 holdSeatsAfterCheck_db0)

lemma holdSeats_db1:
  "holdSeats cfg0 (holdRequest ''1B'') 2000 db1 =
     (db1, holdFailure (holdRequest ''1B'') 2000 (HoldQuotaExceeded 1 1))"
  by (simp add: holdSeats_def quota_db1 holdSeatsAfterCheck_def)

section \<open>Outcomes of the hold operations\<close>

lemma find_None_iff_all: "(List.find P xs = None) = (\<forall>x\<in>set xs. \<not> P x)"
  by (induction xs) auto

lemma holdSeatsTx_Inr:
  assumes "holdSeatsTx params expiry db = Inr (db', hold)"
  shows "reqCategory params = BUS
    \<and> (\<exists>schedule e. busSchedules db (reqScheduleId params) = Some schedule
          \<and> status schedule = ''ACTIVE''
          \<and> (\<forall>seat\<in>set (reqSeatNumbers params). seatStatus schedule seat = Some ''AVAILABLE'')
          \<and> expiry = Some e
          \<and> db' = db\<lparr>busSchedules :=
                       (busSchedules db)(reqScheduleId params \<mapsto>
                          holdSchedule (reqSeatNumbers params) schedule),
                     seatHolds := seatHolds db @ [newHold params e db],
                     nextHoldId := Suc (nextHoldId db)\<rparr>
          \<and> hold = newHold params e db)"
  using assms unfolding holdSeatsTx_def
  by (auto simp: find_None_iff_all split: Category.splits option.splits if_splits)

lemma holdSeats_cases:
  obtains
    (error) e where "isHoldQuotaAvailable cfg (reqScheduleId params)
        (int (length (reqSeatNumbers params))) (reqCategory params) db = Inl e"
      and "holdSeats cfg params now db = (db, holdFailure params now (ErrorMessage e))"
  | (quota) q where "isHoldQuotaAvailable cfg (reqScheduleId params)
        (int (length (reqSeatNumbers params))) (reqCategory params) db = Inr q"
      and "\<not> available q"
      and "holdSeats cfg params now db =
        (db, holdFailure params now (HoldQuotaExceeded (maxAllowed q) (currentHeld q)))"
  | (txError) q e where "isHoldQuotaAvailable cfg (reqScheduleId params)
        (int (length (reqSeatNumbers params))) (reqCategory params) db = Inr q"
      and "available q"
      and "holdSeatsTx params (holdExpiryAt cfg params now) db = Inl e"
      and "holdSeats cfg params now db = (db, holdFailure params now (ErrorMessage e))"
  | (held) q db' expiry where "isHoldQuotaAvailable cfg (reqScheduleId params)
        (int (length (reqSeatNumbers params))) (reqCategory params) db = Inr q"
      and "available q"
      and "holdExpiryAt cfg params now = Some expiry"
      and "holdSeatsTx params (Some expiry) db = Inr (db', newHold params expiry db)"
      and "holdSeats cfg params now db =
        (db', \<lparr>success = True, resultHoldId = Some (nextHoldId db),
               resultSeatNumbers = reqSeatNumbers params,
               resultHoldExpiry = expiry,
               message = SeatsHeldSuccessfully\<rparr>)"
proof (cases "isHoldQuotaAvailable cfg (reqScheduleId params)
        (int (length (reqSeatNumbers params))) (reqCategory params) db")
  case (Inl e)
  then show ?thesis using error by (simp add: holdSeats_def)
next
  case (Inr q)
  show ?thesis
  proof (cases "available q")
    case False
    then show ?thesis using quota Inr by (simp add: holdSeats_def holdSeatsAfterCheck_def)
  next
    case True
    show ?thesis
    proof (cases "holdSeatsTx params (holdExpiryAt cfg params now) db")
      case (Inl e)
      then show ?thesis
        using txError Inr True
        by (simp add: holdSeats_def holdSeatsAfterCheck_def)
    next
      case tx: (Inr r)
      obtain db' hold where r: "r = (db', hold)" by (cases r)
      obtain expiry where e: "holdExpiryAt cfg params now = Some expiry"
        and h: "hold = newHold params expiry db"
        using holdSeatsTx_Inr tx r by blast
      show ?thesis
        using held [of q expiry db'] Inr True tx r h e
        by (simp add: holdSeats_def holdSeatsAfterCheck_def newHold_def)
    qed
  qed
qed

lemma holdFailure_fields [simp]:
  "success (holdFailure params now msg) = False"
  "message (holdFailure params now msg) = msg"
  "resultHoldId (holdFailure params now msg) = None"
  by (simp_all add: holdFailure_def)

lemma holdSeats_failure_unchanged:
  assumes "\<not> success (snd (holdSeats cfg params now db))"
  shows "fst (holdSeats cfg params now db) = db"
  using assms by (cases rule: holdSeats_cases [of cfg params db now]) simp_all

lemma releaseHold_failure_unchanged:
  assumes "\<not> snd (releaseHold i reason now db)"
  shows "fst (releaseHold i reason now db) = db"
  using assms by (simp add: releaseHold_def split: sum.splits)

lemma convertHoldToBooking_failure_unchanged:
  assumes "\<not> snd (convertHoldToBooking i bookingId now db)"
  shows "fst (convertHoldToBooking i bookingId now db) = db"
  using assms by (simp add: convertHoldToBooking_def split: sum.splits)


lemma holdSeats_success:
  assumes "success (snd (holdSeats cfg params now db))"
  obtains schedule expiry where "reqCategory params = BUS"
    and "busSchedules db (reqScheduleId params) = Some schedule"
    and "status schedule = ''ACTIVE''"
    and "\<forall>seat\<in>set (reqSeatNumbers params). seatStatus schedule seat = Some ''AVAILABLE''"
    and "holdExpiryAt cfg params now = Some expiry"
    and "fst (holdSeats cfg params now db) =
          db\<lparr>busSchedules :=
               (busSchedules db)(reqScheduleId params \<mapsto>
                  holdSchedule (reqSeatNumbers params) schedule),
             seatHolds := seatHolds db @ [newHold params expiry db],
             nextHoldId := Suc (nextHoldId db)\<rparr>"
    and "snd (holdSeats cfg params now db) =
          \<lparr>success = True, resultHoldId = Some (nextHoldId db),
           resultSeatNumbers = reqSeatNumbers params,
           resultHoldExpiry = expiry,
           message = SeatsHeldSuccessfully\<rparr>"
proof (cases rule: holdSeats_cases [of cfg params db now])
  case (error e)
  then show ?thesis using assms by simp
next
  case (quota q)
  then show ?thesis using assms by simp
next
  case (txError q e)
  then show ?thesis using assms by simp
next
  case (held q db' expiry)
  from holdSeatsTx_Inr [OF held(4)] held(3,5) that show ?thesis by auto
qed

lemma findHold_updateHold:
  "findHold i (updateHold j f db) =
     (if i = j then map_option f (findHold i db) else findHold i db)"
  if "\<And>h. holdId (f h) = holdId h"
proof -
  have "List.find (\<lambda>h. holdId h = i) (map (\<lambda>h. if holdId h = j then f h else h) xs) =
      (if i = j then map_option f (List.find (\<lambda>h. holdId h = i) xs)
       else List.find (\<lambda>h. holdId h = i) xs)" for xs
    using that by (induction xs) auto
  then show ?thesis by (simp add: findHold_def updateHold_def)
qed

lemma holdId_releasedHold [simp]: "holdId (releasedHold reason now h) = holdId h"
  by (simp add: releasedHold_def)

lemma holdId_convertedHold [simp]: "holdId (convertedHold now h) = holdId h"
  by (simp add: convertedHold_def)

lemma releaseHold_active:
  assumes "findHold i db = Some hold" and "holdStatus hold = ACTIVE"
  shows "releaseHold i reason now db =
     (updateHold i (releasedHold reason now) (releaseInventory hold db), True)"
  using assms by (simp add: releaseHold_def releaseHoldTx_def)

lemma releaseHold_not_active:
  assumes "findHold i db = None \<or> (\<exists>h. findHold i db = Some h \<and> holdStatus h \<noteq> ACTIVE)"
  shows "releaseHold i reason now db = (db, False)"
  using assms by (auto simp: releaseHold_def releaseHoldTx_def)

lemma releaseHold_success:
  assumes "snd (releaseHold i reason now db)"
  obtains hold where "findHold i db = Some hold" and "holdStatus hold = ACTIVE"
proof (cases "findHold i db")
  case None
  then show ?thesis using assms releaseHold_not_active [of i db reason now] by simp
next
  case (Some h)
  then show ?thesis
    using assms releaseHold_not_active [of i db reason now] that by (cases "holdStatus h = ACTIVE") auto
qed

lemma convertHoldToBooking_active:
  assumes "findHold i db = Some hold" and "holdStatus hold = ACTIVE"
  shows "convertHoldToBooking i bookingId now db =
     (bookInventory hold (updateHold i (convertedHold now) db), True)"
  using assms by (simp add: convertHoldToBooking_def convertHoldToBookingTx_def)

lemma convertHoldToBooking_not_active:
  assumes "findHold i db = None \<or> (\<exists>h. findHold i db = Some h \<and> holdStatus h \<noteq> ACTIVE)"
  shows "convertHoldToBooking i bookingId now db = (db, False)"
  using assms by (auto simp: convertHoldToBooking_def convertHoldToBookingTx_def)

lemma convertHoldToBooking_success:
  assumes "snd (convertHoldToBooking i bookingId now db)"
  obtains hold where "findHold i db = Some hold" and "holdStatus hold = ACTIVE"
proof (cases "findHold i db")
  case None
  then show ?thesis
    using assms convertHoldToBooking_not_active [of i db bookingId now] by simp
next
  case (Some h)
  then show ?thesis
    using assms convertHoldToBooking_not_active [of i db bookingId now] that
    by (cases "holdStatus h = ACTIVE") auto
qed

section \<open>The seat counts add up to the total\<close>

lemma holdSeats_delta:
  assumes "success (snd (holdSeats cfg params now db))"
  shows "\<exists>s s'. busSchedules db (reqScheduleId params) = Some s
      \<and> busSchedules (fst (holdSeats cfg params now db)) (reqScheduleId params) = Some s'
      \<and> availableSeats s' = availableSeats s - int (length (reqSeatNumbers params))
      \<and> heldSeats s' = heldSeats s + int (length (reqSeatNumbers params))
      \<and> bookedSeats s' = bookedSeats s \<and> route s' = route s"
  using assms by (rule holdSeats_success) (simp add: holdSchedule_def)

lemma releaseHold_delta:
  assumes "snd (releaseHold i reason now db)" and "findHold i db = Some h"
    and "busSchedules db (scheduleId h) = Some s"
  shows "\<exists>s'. busSchedules (fst (releaseHold i reason now db)) (scheduleId h) = Some s'
      \<and> availableSeats s' = availableSeats s + int (length (seatNumbers h))
      \<and> heldSeats s' = heldSeats s - int (length (seatNumbers h))
      \<and> bookedSeats s' = bookedSeats s \<and> route s' = route s"
proof -
  have "holdStatus h = ACTIVE"
    using assms(1,2) by (auto elim: releaseHold_success)
  then show ?thesis
    using assms(2,3)
    by (simp add: releaseHold_active releaseInventory_def releaseScheduleOf_def
        releaseSchedule_def)
qed

lemma convertHoldToBooking_delta:
  assumes "snd (convertHoldToBooking i bookingId now db)" and "findHold i db = Some h"
    and "busSchedules db (scheduleId h) = Some s"
  shows "\<exists>s'. busSchedules (fst (convertHoldToBooking i bookingId now db)) (scheduleId h)
        = Some s'
      \<and> availableSeats s' = availableSeats s
      \<and> heldSeats s' = heldSeats s - int (length (seatNumbers h))
      \<and> bookedSeats s' = bookedSeats s + int (length (seatNumbers h))
      \<and> route s' = route s"
proof -
  have "holdStatus h = ACTIVE"
    using assms(1,2) by (auto elim: convertHoldToBooking_success)
  then show ?thesis
    using assms(2,3)
    by (simp add: convertHoldToBooking_active bookInventory_def bookSchedule_def)
qed

text \<open>
  C1: in every store where each schedule satisfies
  \<open>availableSeats + heldSeats + bookedSeats = totalSeats\<close>, the equation still holds after
  any sequence of \<open>holdSeats\<close>, \<open>releaseHold\<close>, \<open>convertHoldToBooking\<close> and
  \<open>releaseExpiredHolds\<close> calls. A successful \<open>holdSeats\<close> of n seats takes n from
  \<open>availableSeats\<close> and adds n to \<open>heldSeats\<close>; a successful \<open>releaseHold\<close> moves the
  hold's seat count from \<open>heldSeats\<close> back to \<open>availableSeats\<close>; a successful
  \<open>convertHoldToBooking\<close> moves it from \<open>heldSeats\<close> to \<open>bookedSeats\<close>.
\<close>

theorem hold_operations_preserve_seat_sum:
  assumes "allBalanced db"
  shows "allBalanced (fold (applyOperation cfg) ops db)
    \<and> (success (snd (holdSeats cfg params now db)) \<longrightarrow>
         (\<exists>s s'. busSchedules db (reqScheduleId params) = Some s
            \<and> busSchedules (fst (holdSeats cfg params now db)) (reqScheduleId params) = Some s'
            \<and> availableSeats s' = availableSeats s - int (length (reqSeatNumbers params))
            \<and> heldSeats s' = heldSeats s + int (length (reqSeatNumbers params))
            \<and> bookedSeats s' = bookedSeats s \<and> route s' = route s))
    \<and> (snd (releaseHold i reason now db) \<and> findHold i db = Some h
          \<and> busSchedules db (scheduleId h) = Some s \<longrightarrow>
         (\<exists>s'. busSchedules (fst (releaseHold i reason now db)) (scheduleId h) = Some s'
            \<and> availableSeats s' = availableSeats s + int (length (seatNumbers h))
            \<and> heldSeats s' = heldSeats s - int (length (seatNumbers h))
            \<and> bookedSeats s' = bookedSeats s \<and> route s' = route s))
    \<and> (snd (convertHoldToBooking i bookingId now db) \<and> findHold i db = Some h
          \<and> busSchedules db (scheduleId h) = Some s \<longrightarrow>
         (\<exists>s'. busSchedules (fst (convertHoldToBooking i bookingId now db)) (scheduleId h)
              = Some s'
            \<and> availableSeats s' = availableSeats s
            \<and> heldSeats s' = heldSeats s - int (length (seatNumbers h))
            \<and> bookedSeats s' = bookedSeats s + int (length (seatNumbers h))
            \<and> route s' = route s))"
  using run_balanced [OF assms] holdSeats_delta releaseHold_delta convertHoldToBooking_delta
  by blast


lemma allBalanced_db0: "allBalanced db0"
  by (simp add: allBalanced_def inventoryBalanced_def db0_def schedule0_def)

lemma allBalanced_db1: "allBalanced db1"
  by (auto simp: allBalanced_def inventoryBalanced_def db1_def schedule0_def holdSchedule_def
      split: if_splits)

lemma findHold_db1: "findHold 0 db1 = Some hold0"
  by (simp add: findHold_def db1_def hold0_def)

lemma hold0_fields [simp]:
  "holdId hold0 = 0" "scheduleId hold0 = ''S1''" "seatNumbers hold0 = [''1A'']"
  "holdStatus hold0 = ACTIVE" "holdExpiry hold0 = 601000" "releasedAt hold0 = None"
  by (simp_all add: hold0_def)

lemma schedule_db1: "busSchedules db1 ''S1'' = Some (holdSchedule [''1A''] schedule0)"
  by (simp add: db1_def)

theorem hold_operations_preserve_seat_sum_witness:
  "allBalanced db0
   \<and> allBalanced (fold (applyOperation cfg0)
        [OpHoldSeats (holdRequest ''1A'') 1000, OpReleaseHold 0 REASON_USER_CANCELLED 2000,
         OpReleaseExpiredHolds 700000] db0)
   \<and> success (snd (holdSeats cfg0 (holdRequest ''1A'') 1000 db0))
   \<and> (\<exists>s s'. busSchedules db0 ''S1'' = Some s
          \<and> busSchedules (fst (holdSeats cfg0 (holdRequest ''1A'') 1000 db0)) ''S1'' = Some s'
          \<and> availableSeats s' = availableSeats s - 1 \<and> heldSeats s' = heldSeats s + 1
          \<and> bookedSeats s' = bookedSeats s \<and> route s' = route s)
   \<and> allBalanced db1
   \<and> snd (releaseHold 0 REASON_USER_CANCELLED 2000 db1)
   \<and> (\<exists>s'. busSchedules (fst (releaseHold 0 REASON_USER_CANCELLED 2000 db1)) ''S1'' = Some s'
          \<and> availableSeats s' = availableSeats (holdSchedule [''1A''] schedule0) + 1
          \<and> heldSeats s' = heldSeats (holdSchedule [''1A''] schedule0) - 1
          \<and> bookedSeats s' = bookedSeats (holdSchedule [''1A''] schedule0)
          \<and> route s' = route (holdSchedule [''1A''] schedule0))
   \<and> snd (convertHoldToBooking 0 ''booking-1'' 2000 db1)
   \<and> (\<exists>s'. busSchedules (fst (convertHoldToBooking 0 ''booking-1'' 2000 db1)) ''S1'' = Some s'
          \<and> availableSeats s' = availableSeats (holdSchedule [''1A''] schedule0)
          \<and> heldSeats s' = heldSeats (holdSchedule [''1A''] schedule0) - 1
          \<and> bookedSeats s' = bookedSeats (holdSchedule [''1A''] schedule0) + 1
          \<and> route s' = route (holdSchedule [''1A''] schedule0))"
proof -
  have a: "success (snd (holdSeats cfg0 (holdRequest ''1A'') 1000 db0))"
    by (simp add: holdSeats_db0)
  have b: "snd (releaseHold 0 REASON_USER_CANCELLED 2000 db1)"
    by (simp add: releaseHold_active [OF findHold_db1])
  have c: "snd (convertHoldToBooking 0 ''booking-1'' 2000 db1)"
    by (simp add: convertHoldToBooking_active [OF findHold_db1])
  note at_db0 = hold_operations_preserve_seat_sum [OF allBalanced_db0,
        where cfg = cfg0 and params = "holdRequest ''1A''" and now = 1000
        and ops = "[OpHoldSeats (holdRequest ''1A'') 1000,
          OpReleaseHold 0 REASON_USER_CANCELLED 2000, OpReleaseExpiredHolds 700000]"
        and i = 0 and reason = REASON_USER_CANCELLED and h = hold0 and s = schedule0
        and bookingId = "''booking-1''"]
  note at_db1 = hold_operations_preserve_seat_sum [OF allBalanced_db1,
        where i = 0 and reason = REASON_USER_CANCELLED and now = 2000 and h = hold0
        and s = "holdSchedule [''1A''] schedule0" and bookingId = "''booking-1''"
        and cfg = cfg0 and ops = "[]" and params = "holdRequest ''1B''"]
  show ?thesis
    using at_db0 at_db1 a b c allBalanced_db0 allBalanced_db1 findHold_db1 schedule_db1
    by simp
qed

section \<open>Quota rejection and hold expiry\<close>


lemma isHoldQuotaAvailable_disabled:
  assumes "loadQuotaInputs sid category db = Inr (seats, held, p)"
    and "\<not> policyEnabled p"
  shows "isHoldQuotaAvailable cfg sid n category db =
     Inr \<lparr>available = False, maxAllowed = 0, currentHeld = 0\<rparr>"
  using assms by (simp add: isHoldQuotaAvailable_def policyEnabled_def split: option.splits)



lemma seatHolds_db1: "seatHolds db1 = [hold0]"
  by (simp add: db1_def)

lemma schedule_db0: "busSchedules db0 ''S1'' = Some schedule0"
  by (simp add: db0_def)





lemma cfgNumber_fields [simp]:
  "DEFAULT_HOLD_EXPIRY_MINUTES cfgNumber = 30" "DEFAULT_HOLD_QUOTA_PERCENTAGE cfgNumber = 25"
  "LocalTZA cfgNumber t isUTC = 0" "\<not> percentageIsDecimal cfgNumber"
  by (simp_all add: cfgNumber_def cfg0_def)









lemma cfgNewYork_fields [simp]:
  "DEFAULT_HOLD_EXPIRY_MINUTES cfgNewYork = 30" "percentageIsDecimal cfgNewYork"
  "LocalTZA cfgNewYork t True = (if t < 1793512800000 then - 14400000 else - 18000000)"
  "LocalTZA cfgNewYork t False = (if t < 1793498400000 then - 14400000 else - 18000000)"
  by (simp_all add: cfgNewYork_def cfg0_def)


lemma holdExpiryAt_after_clocks_went_back:
  \<comment> \<open>a hold of 10 minutes requested at 2026-11-01T06:30:00Z, which is 01:30 local time, is
     set to 01:40 local time, read as 05:40:00Z: 50 minutes earlier\<close>
  "holdExpiryAt cfgNewYork (holdRequest seat) 1793514600000 = Some 1793511600000"
  using holdExpiryAt_local [where now = 1793514600000 and m = 10
      and params = "holdRequest seat" and cfg = cfgNewYork]
  by (simp add: TimeClip_def)

lemma holdExpiryAt_beyond_last_date:
  \<comment> \<open>10 minutes after the last time value of a \<open>Date\<close> there is no \<open>Date\<close>\<close>
  "holdExpiryAt cfg0 (holdRequest seat) 8640000000000000 = None"
  using holdExpiryAt_local [where now = 8640000000000000 and m = 10
      and params = "holdRequest seat" and cfg = cfg0]
  by (simp add: TimeClip_def)






section \<open>A disabled policy\<close>

lemma calculateMaxHolds_4_10: "calculateMaxHolds 4 10 = 0"
  using calculateMaxHolds_integer_percentage [of 4 10] by simp

lemma loadQuotaInputs_dbDisabled:
  "loadQuotaInputs ''S1'' BUS dbDisabled
     = Inr (4, 0, Some (partner0\<lparr>holdQuotaEnabled := False\<rparr>))"
  by (simp add: loadQuotaInputs_def dbDisabled_def db0_def schedule0_def)

lemma loadQuotaInputs_dbSmallQuota:
  "loadQuotaInputs ''S1'' BUS dbSmallQuota
     = Inr (4, 0, Some (partner0\<lparr>holdQuotaPercentage := 10\<rparr>))"
  by (simp add: loadQuotaInputs_def dbSmallQuota_def db0_def schedule0_def)

lemma holdSeats_dbDisabled:
  "holdSeats cfg0 (holdRequest ''1A'') 1000 dbDisabled =
     (dbDisabled, holdFailure (holdRequest ''1A'') 1000 (HoldQuotaExceeded 0 0))"
  by (simp add: holdSeats_def isHoldQuotaAvailable_def loadQuotaInputs_dbDisabled
      holdSeatsAfterCheck_def partner0_def)

lemma holdSeats_dbSmallQuota:
  "holdSeats cfg0 (holdRequest ''1A'') 1000 dbSmallQuota =
     (dbSmallQuota, holdFailure (holdRequest ''1A'') 1000 (HoldQuotaExceeded 0 0))"
  by (simp add: holdSeats_def isHoldQuotaAvailable_def loadQuotaInputs_dbSmallQuota
      holdSeatsAfterCheck_def partner0_def policyQuotaPercentage_cfg0 double_round_10
      calculateMaxHolds_4_10)

text \<open>
  C6, as stated: with the partner's \<open>holdEnabled\<close> false, \<open>holdSeats\<close> fails with an
  outcome PolicyDisabled that is distinct from QuotaExceeded. The service has no such
  outcome: a disabled policy is reported as \<open>Hold quota exceeded. Max allowed: 0,
  Currently held: 0\<close>, and the same result comes back from a schedule whose partner has
  holds enabled with a quota too small for one seat.
\<close>

theorem policy_disabled_reported_as_quota_exceeded:
  "loadQuotaInputs ''S1'' BUS dbDisabled
     = Inr (4, 0, Some (partner0\<lparr>holdQuotaEnabled := False\<rparr>))
   \<and> \<not> holdQuotaEnabled (partner0\<lparr>holdQuotaEnabled := False\<rparr>)
   \<and> loadQuotaInputs ''S1'' BUS dbSmallQuota
     = Inr (4, 0, Some (partner0\<lparr>holdQuotaPercentage := 10\<rparr>))
   \<and> holdQuotaEnabled (partner0\<lparr>holdQuotaPercentage := 10\<rparr>)
   \<and> 0 + int (length (reqSeatNumbers (holdRequest ''1A'')))
       > calculateMaxHolds 4 (policyQuotaPercentage cfg0 (partner0\<lparr>holdQuotaPercentage := 10\<rparr>))
   \<and> snd (holdSeats cfg0 (holdRequest ''1A'') 1000 dbDisabled)
       = snd (holdSeats cfg0 (holdRequest ''1A'') 1000 dbSmallQuota)
   \<and> message (snd (holdSeats cfg0 (holdRequest ''1A'') 1000 dbDisabled))
       = HoldQuotaExceeded 0 0"
  by (simp add: loadQuotaInputs_dbDisabled loadQuotaInputs_dbSmallQuota holdSeats_dbDisabled
      holdSeats_dbSmallQuota partner0_def policyQuotaPercentage_cfg0 double_round_10
      calculateMaxHolds_4_10)

text \<open>
  C6, amended: when the schedule of the request exists and its partner has the hold quota
  disabled (or the schedule has no partner), \<open>holdSeats\<close> fails before any change to the
  store, inventory and hold records alike, with the message \<open>Hold quota exceeded. Max
  allowed: 0, Currently held: 0\<close>. This is the outcome of a quota rejection; it is not
  the message of any caught error, such as the seat-unavailable and not-found failures.
\<close>

theorem policy_disabled_rejected_before_mutation:
  assumes "loadQuotaInputs (reqScheduleId params) (reqCategory params) db
             = Inr (seats, held, p)"
    and "\<not> policyEnabled p"
  shows "holdSeats cfg params now db
           = (db, holdFailure params now (HoldQuotaExceeded 0 0))
    \<and> \<not> success (snd (holdSeats cfg params now db))
    \<and> message (snd (holdSeats cfg params now db)) \<noteq> ErrorMessage e"
  using isHoldQuotaAvailable_disabled [OF assms, of cfg "int (length (reqSeatNumbers params))"]
  by (simp add: holdSeats_def holdSeatsAfterCheck_def)

theorem policy_disabled_rejected_before_mutation_witness:
  "loadQuotaInputs ''S1'' BUS dbDisabled
     = Inr (4, 0, Some (partner0\<lparr>holdQuotaEnabled := False\<rparr>))
   \<and> \<not> policyEnabled (Some (partner0\<lparr>holdQuotaEnabled := False\<rparr>))
   \<and> holdSeats cfg0 (holdRequest ''1A'') 1000 dbDisabled
       = (dbDisabled, holdFailure (holdRequest ''1A'') 1000 (HoldQuotaExceeded 0 0))
   \<and> \<not> success (snd (holdSeats cfg0 (holdRequest ''1A'') 1000 dbDisabled))
   \<and> message (snd (holdSeats cfg0 (holdRequest ''1A'') 1000 dbDisabled))
       \<noteq> ErrorMessage (SeatNotAvailable ''1A'')"
proof -
  have l: "loadQuotaInputs (reqScheduleId (holdRequest ''1A''))
      (reqCategory (holdRequest ''1A'')) dbDisabled
        = Inr (4, 0, Some (partner0\<lparr>holdQuotaEnabled := False\<rparr>))"
    by (simp add: loadQuotaInputs_dbDisabled)
  have d: "\<not> policyEnabled (Some (partner0\<lparr>holdQuotaEnabled := False\<rparr>))"
    by (simp add: policyEnabled_def)
  show ?thesis
    using policy_disabled_rejected_before_mutation [OF l d, of cfg0 1000
        "SeatNotAvailable ''1A''"] d
    by (simp add: loadQuotaInputs_dbDisabled)
qed

section \<open>Failures are returned, not thrown\<close>

lemma quota_dbBooked:
  "isHoldQuotaAvailable cfg0 ''S1'' 1 BUS dbBooked
     = Inr \<lparr>available = True, maxAllowed = 1, currentHeld = 0\<rparr>"
  by (simp add: isHoldQuotaAvailable_def loadQuotaInputs_def dbBooked_def db0_def
      schedule0_def partner0_def policyQuotaPercentage_cfg0 double_round_25
      calculateMaxHolds_4_25)

lemma holdSeatsTx_dbBooked:
  "holdSeatsTx (holdRequest ''1A'') expiry dbBooked = Inl (SeatNotAvailable ''1A'')"
  by (simp add: holdSeatsTx_def dbBooked_def db0_def schedule0_def seats0_def)

lemma findHold_db1_none: "findHold 7 db1 = None"
  by (simp add: findHold_def db1_def hold0_def)

lemma holdSeatsCallback_no_failure:
  assumes "\<not> fails HoldFindSchedule" "\<not> fails HoldUpdateSchedule" "\<not> fails HoldCreateHold"
    and "\<not> fails TransactionBegin" "\<not> fails TransactionCommit"
  shows "transaction fails (holdSeatsCallback fails params expiry) db =
     (case holdSeatsTx params expiry db of
        Inl e \<Rightarrow> (db, Inl e)
      | Inr (db', hold) \<Rightarrow> (db', Inr hold))"
  using assms
  by (simp add: transaction_def holdSeatsCallback_def holdSeatsTx_def Let_def newHold_def
      split: Category.splits option.splits)

lemma holdSeatsCallback_Inr:
  assumes "snd (holdSeatsCallback fails params expiry db) = Inr hold"
  shows "\<not> fails HoldFindSchedule \<and> \<not> fails HoldUpdateSchedule \<and> \<not> fails HoldCreateHold"
  using assms
  by (simp add: holdSeatsCallback_def Let_def
      split: Category.splits option.splits if_splits)

lemma transaction_Inl:
  assumes "snd (transaction fails callback db) = Inl e"
  shows "transaction fails callback db = (db, Inl e)"
  using assms
  by (simp add: transaction_def split: if_splits prod.splits sum.splits)

lemma transaction_Inr:
  assumes "snd (transaction fails callback db) = Inr a"
  shows "\<not> fails TransactionBegin \<and> \<not> fails TransactionCommit
    \<and> snd (callback db) = Inr a"
  using assms
  by (simp add: transaction_def split: if_splits prod.splits sum.splits)

lemma holdSeatsWith_no_failure:
  assumes "\<not> fails QuotaFindSchedule" "\<not> fails TransactionBegin"
    and "\<not> fails HoldFindSchedule" "\<not> fails HoldUpdateSchedule" "\<not> fails HoldCreateHold"
    and "\<not> fails TransactionCommit"
  shows "holdSeatsWith fails cfg params now db =
     (fst (holdSeats cfg params now db), Inr (snd (holdSeats cfg params now db)))"
  unfolding holdSeatsWith_def holdSeatsBody_def tryCatch_def isHoldQuotaAvailableWith_def
    holdSeats_def holdSeatsAfterCheck_def
    holdSeatsCallback_no_failure [OF assms(3,4,5,2,6)]
  using assms(1)
  by (simp split: sum.splits prod.splits)

lemma holdSeats_failure_message:
  assumes "\<not> success (snd (holdSeats cfg params now db))"
  shows "message (snd (holdSeats cfg params now db)) \<noteq> SeatsHeldSuccessfully"
  using assms by (cases rule: holdSeats_cases [of cfg params db now]) simp_all

lemma holdSeatsWith_outcome:
  obtains
    (failed) r where "holdSeatsWith fails cfg params now db = (db, Inr r)"
      and "\<not> success r" and "message r \<noteq> SeatsHeldSuccessfully"
  | (held) "holdSeatsWith fails cfg params now db =
        (fst (holdSeats cfg params now db), Inr (snd (holdSeats cfg params now db)))"
      and "success (snd (holdSeats cfg params now db))"
      and "\<not> fails QuotaFindSchedule" and "\<not> fails TransactionBegin"
      and "\<not> fails HoldFindSchedule" and "\<not> fails HoldUpdateSchedule"
      and "\<not> fails HoldCreateHold" and "\<not> fails TransactionCommit"
proof (cases "isHoldQuotaAvailableWith fails cfg (reqScheduleId params)
        (int (length (reqSeatNumbers params))) (reqCategory params) db")
  case (Inl e)
  then have "holdSeatsWith fails cfg params now db
      = (db, Inr (holdFailure params now (ErrorMessage e)))"
    by (simp add: holdSeatsWith_def holdSeatsBody_def tryCatch_def)
  then show ?thesis using failed by simp
next
  case (Inr q)
  show ?thesis
  proof (cases "available q")
    case False
    then have "holdSeatsWith fails cfg params now db
        = (db, Inr (holdFailure params now (HoldQuotaExceeded (maxAllowed q) (currentHeld q))))"
      using Inr by (simp add: holdSeatsWith_def holdSeatsBody_def tryCatch_def)
    then show ?thesis using failed by simp
  next
    case True
    show ?thesis
    proof (cases "snd (transaction fails
        (holdSeatsCallback fails params (holdExpiryAt cfg params now)) db)")
      case (Inl e)
      from transaction_Inl [OF Inl]
      have "holdSeatsWith fails cfg params now db
          = (db, Inr (holdFailure params now (ErrorMessage e)))"
        using Inr True by (simp add: holdSeatsWith_def holdSeatsBody_def tryCatch_def)
      then show ?thesis using failed by simp
    next
      case tx: (Inr hold)
      have q: "\<not> fails QuotaFindSchedule"
        using Inr by (auto simp: isHoldQuotaAvailableWith_def split: if_splits)
      note t = transaction_Inr [OF tx]
      note c = holdSeatsCallback_Inr [of fails params "holdExpiryAt cfg params now" db hold]
      have nf: "\<not> fails TransactionBegin" "\<not> fails HoldFindSchedule"
        "\<not> fails HoldUpdateSchedule" "\<not> fails HoldCreateHold" "\<not> fails TransactionCommit"
        using t c by simp_all
      note eq = holdSeatsWith_no_failure [OF q nf, of cfg params now db]
      obtain written where
        "transaction fails (holdSeatsCallback fails params (holdExpiryAt cfg params now)) db
           = (written, Inr hold)"
        using tx by (metis prod.collapse)
      then have "\<exists>r. snd (holdSeatsWith fails cfg params now db) = Inr r \<and> success r"
        using Inr True
        by (simp add: holdSeatsWith_def holdSeatsBody_def tryCatch_def)
      then have "success (snd (holdSeats cfg params now db))"
        unfolding eq by simp
      then show ?thesis using held eq q nf by blast
    qed
  qed
qed

lemma releaseHoldWith_outcome:
  obtains
    (failed) "releaseHoldWith fails i reason now db = (db, Inr False)"
  | (released) hold where
      "releaseHoldWith fails i reason now db = (fst (releaseHold i reason now db), Inr True)"
      and "snd (releaseHold i reason now db)"
      and "findHold i db = Some hold" and "holdStatus hold = ACTIVE"
      and "\<not> fails TransactionBegin" and "\<not> fails ReleaseFindHold"
      and "\<not> fails ReleaseFindSchedule"
      and "busSchedules db (scheduleId hold) \<noteq> None \<longrightarrow> \<not> fails ReleaseUpdateSchedule"
      and "\<not> fails ReleaseUpdateHold" and "\<not> fails TransactionCommit"
proof (cases "snd (releaseHoldWith fails i reason now db) = Inr True")
  case False
  then have "releaseHoldWith fails i reason now db = (db, Inr False)"
    by (auto simp: releaseHoldWith_def tryCatch_def transaction_def
        split: prod.splits sum.splits if_splits)
  then show ?thesis by (rule failed)
next
  case True
  then obtain hold where "findHold i db = Some hold" "holdStatus hold = ACTIVE"
    "\<not> fails TransactionBegin" "\<not> fails ReleaseFindHold" "\<not> fails ReleaseFindSchedule"
    "busSchedules db (scheduleId hold) \<noteq> None \<longrightarrow> \<not> fails ReleaseUpdateSchedule"
    "\<not> fails ReleaseUpdateHold" "\<not> fails TransactionCommit"
    by (auto simp: releaseHoldWith_def tryCatch_def transaction_def releaseHoldCallback_def
        split: prod.splits sum.splits if_splits option.splits)
  moreover from this
  have "releaseHoldWith fails i reason now db = (fst (releaseHold i reason now db), Inr True)"
    and "snd (releaseHold i reason now db)"
    by (auto simp: releaseHoldWith_def tryCatch_def transaction_def releaseHoldCallback_def
        releaseHold_def releaseHoldTx_def)
  ultimately show ?thesis by (rule released [rotated 2])
qed

lemma convertHoldToBookingWith_outcome:
  obtains
    (failed) "convertHoldToBookingWith fails i bookingId now db = (db, Inr False)"
  | (converted) hold where
      "convertHoldToBookingWith fails i bookingId now db
         = (fst (convertHoldToBooking i bookingId now db), Inr True)"
      and "snd (convertHoldToBooking i bookingId now db)"
      and "findHold i db = Some hold" and "holdStatus hold = ACTIVE"
      and "\<not> fails TransactionBegin" and "\<not> fails ConvertFindHold"
      and "\<not> fails ConvertUpdateHold" and "\<not> fails ConvertFindSchedule"
      and "busSchedules db (scheduleId hold) \<noteq> None \<longrightarrow> \<not> fails ConvertUpdateSchedule"
      and "\<not> fails TransactionCommit"
proof (cases "snd (convertHoldToBookingWith fails i bookingId now db) = Inr True")
  case False
  then have "convertHoldToBookingWith fails i bookingId now db = (db, Inr False)"
    by (auto simp: convertHoldToBookingWith_def tryCatch_def transaction_def
        split: prod.splits sum.splits if_splits)
  then show ?thesis by (rule failed)
next
  case True
  then obtain hold where "findHold i db = Some hold" "holdStatus hold = ACTIVE"
    "\<not> fails TransactionBegin" "\<not> fails ConvertFindHold" "\<not> fails ConvertUpdateHold"
    "\<not> fails ConvertFindSchedule"
    "busSchedules db (scheduleId hold) \<noteq> None \<longrightarrow> \<not> fails ConvertUpdateSchedule"
    "\<not> fails TransactionCommit"
    by (auto simp: convertHoldToBookingWith_def tryCatch_def transaction_def
        convertHoldToBookingCallback_def Let_def updateHold_def
        split: prod.splits sum.splits if_splits option.splits)
  moreover from this
  have "convertHoldToBookingWith fails i bookingId now db
      = (fst (convertHoldToBooking i bookingId now db), Inr True)"
    and "snd (convertHoldToBooking i bookingId now db)"
    by (auto simp: convertHoldToBookingWith_def tryCatch_def transaction_def
        convertHoldToBookingCallback_def Let_def updateHold_def
        convertHoldToBooking_def convertHoldToBookingTx_def)
  ultimately show ?thesis by (rule converted [rotated 2])
qed

lemma holdSeatsBody_Inl:
  assumes "snd (holdSeatsBody fails cfg params now db) = Inl e"
  shows "holdSeatsBody fails cfg params now db = (db, Inl e)"
proof (cases "isHoldQuotaAvailableWith fails cfg (reqScheduleId params)
        (int (length (reqSeatNumbers params))) (reqCategory params) db")
  case (Inl e')
  then show ?thesis using assms by (simp add: holdSeatsBody_def)
next
  case (Inr q)
  show ?thesis
  proof (cases "available q")
    case False
    then show ?thesis using assms Inr by (simp add: holdSeatsBody_def)
  next
    case True
    show ?thesis
    proof (cases "snd (transaction fails
        (holdSeatsCallback fails params (holdExpiryAt cfg params now)) db)")
      case (Inl e')
      from transaction_Inl [OF Inl] show ?thesis
        using assms Inr True by (simp add: holdSeatsBody_def)
    next
      case tx: (Inr hold)
      obtain written where
        "transaction fails (holdSeatsCallback fails params (holdExpiryAt cfg params now)) db
           = (written, Inr hold)"
        using tx by (metis prod.collapse)
      then show ?thesis using assms Inr True by (simp add: holdSeatsBody_def)
    qed
  qed
qed

lemma failsAt_iff [simp]: "failsAt c call \<longleftrightarrow> call = c"
  by (simp add: failsAt_def)

lemma holdSeatsCallback_db0:
  "holdSeatsCallback (failsAt HoldCreateHold) (holdRequest ''1A'') expiry db0 =
     (db0\<lparr>busSchedules := (busSchedules db0)(''S1'' \<mapsto> holdSchedule [''1A''] schedule0)\<rparr>,
      Inl (StoreFailure HoldCreateHold))"
  by (simp add: holdSeatsCallback_def db0_def schedule0_def seats0_def Let_def)

lemma releaseHoldCallback_db1:
  "releaseHoldCallback (failsAt ReleaseUpdateHold) 0 reason now db1 =
     (releaseInventory hold0 db1, Inl (StoreFailure ReleaseUpdateHold))"
  by (simp add: releaseHoldCallback_def findHold_db1 schedule_db1)

lemma convertHoldToBookingCallback_db1:
  "convertHoldToBookingCallback (failsAt ConvertFindSchedule) 0 now db1 =
     (updateHold 0 (convertedHold now) db1, Inl (StoreFailure ConvertFindSchedule))"
  by (simp add: convertHoldToBookingCallback_def findHold_db1 Let_def)

lemma releaseInventory_db1:
  "busSchedules (releaseInventory hold0 db1) ''S1''
     = Some (releaseSchedule [''1A''] (holdSchedule [''1A''] schedule0))"
  by (simp add: releaseInventory_def releaseScheduleOf_def schedule_db1)

lemma quota_db0_with:
  "isHoldQuotaAvailableWith (failsAt HoldCreateHold) cfg0 ''S1'' 1 BUS db0
     = Inr \<lparr>available = True, maxAllowed = 1, currentHeld = 0\<rparr>"
  by (simp add: isHoldQuotaAvailableWith_def quota_db0)

lemma findHold_db0_none: "findHold 7 db0 = None"
  by (simp add: findHold_def db0_def)

text \<open>
  C10: in every run, whichever calls to the store fail, \<open>holdSeats\<close>, \<open>releaseHold\<close> and
  \<open>convertHoldToBooking\<close> return a result and let no error through to their caller. When
  the result is a failure (a \<open>HoldResult\<close> with \<open>success = false\<close>, whose message is that of
  the caught error or the quota message, or the boolean \<open>false\<close>), the store is the one the
  operation was given: an error thrown by the callback of a transaction comes back as a
  failure with the writes of the callback rolled back. Each of these makes the operation
  fail: a failing call to the store, whether a read, a write, the opening of the
  transaction or its commit; a schedule that is not found or not ACTIVE; a seat that is
  not AVAILABLE; the flight path; an expiry that is an Invalid Date; a hold that is not
  found or not ACTIVE.
\<close>

theorem failures_are_caught_and_rolled_back:
  "(\<exists>r db'. holdSeatsWith fails cfg params now db = (db', Inr r)
       \<and> (\<not> success r \<longrightarrow> db' = db \<and> message r \<noteq> SeatsHeldSuccessfully))
   \<and> (\<exists>ok db'. releaseHoldWith fails i reason now db = (db', Inr ok)
       \<and> (\<not> ok \<longrightarrow> db' = db))
   \<and> (\<exists>ok db'. convertHoldToBookingWith fails i bookingId now db = (db', Inr ok)
       \<and> (\<not> ok \<longrightarrow> db' = db))
   \<and> (snd (holdSeatsBody fails cfg params now db) = Inl e \<longrightarrow>
       holdSeatsWith fails cfg params now db
         = (db, Inr (holdFailure params now (ErrorMessage e))))
   \<and> (isHoldQuotaAvailableWith fails cfg (reqScheduleId params)
          (int (length (reqSeatNumbers params))) (reqCategory params) db = Inr q
       \<and> available q \<and> \<not> fails TransactionBegin
       \<and> snd (holdSeatsCallback fails params (holdExpiryAt cfg params now) db) = Inl e' \<longrightarrow>
       holdSeatsWith fails cfg params now db
         = (db, Inr (holdFailure params now (ErrorMessage e'))))
   \<and> (snd (releaseHoldCallback fails i reason now db) = Inl e'' \<longrightarrow>
       releaseHoldWith fails i reason now db = (db, Inr False))
   \<and> (snd (convertHoldToBookingCallback fails i now db) = Inl e'' \<longrightarrow>
       convertHoldToBookingWith fails i bookingId now db = (db, Inr False))
   \<and> (fails QuotaFindSchedule \<or> fails TransactionBegin \<or> fails HoldFindSchedule
       \<or> fails HoldUpdateSchedule \<or> fails HoldCreateHold \<or> fails TransactionCommit
       \<or> reqCategory params = FLIGHT
       \<or> busSchedules db (reqScheduleId params) = None
       \<or> (\<exists>schedule. busSchedules db (reqScheduleId params) = Some schedule
             \<and> status schedule \<noteq> ''ACTIVE'')
       \<or> (\<exists>schedule seat. busSchedules db (reqScheduleId params) = Some schedule
             \<and> seat \<in> set (reqSeatNumbers params)
             \<and> seatStatus schedule seat \<noteq> Some ''AVAILABLE'')
       \<or> holdExpiryAt cfg params now = None \<longrightarrow>
       (\<exists>r. holdSeatsWith fails cfg params now db = (db, Inr r) \<and> \<not> success r))
   \<and> (fails TransactionBegin \<or> fails ReleaseFindHold \<or> fails ReleaseFindSchedule
       \<or> fails ReleaseUpdateHold \<or> fails TransactionCommit
       \<or> (\<exists>hold schedule. findHold i db = Some hold
             \<and> busSchedules db (scheduleId hold) = Some schedule
             \<and> fails ReleaseUpdateSchedule)
       \<or> findHold i db = None
       \<or> (\<exists>hold. findHold i db = Some hold \<and> holdStatus hold \<noteq> ACTIVE) \<longrightarrow>
       releaseHoldWith fails i reason now db = (db, Inr False))
   \<and> (fails TransactionBegin \<or> fails ConvertFindHold \<or> fails ConvertUpdateHold
       \<or> fails ConvertFindSchedule \<or> fails TransactionCommit
       \<or> (\<exists>hold schedule. findHold i db = Some hold
             \<and> busSchedules db (scheduleId hold) = Some schedule
             \<and> fails ConvertUpdateSchedule)
       \<or> findHold i db = None
       \<or> (\<exists>hold. findHold i db = Some hold \<and> holdStatus hold \<noteq> ACTIVE) \<longrightarrow>
       convertHoldToBookingWith fails i bookingId now db = (db, Inr False))"
proof (intro conjI impI)
  show "\<exists>r db'. holdSeatsWith fails cfg params now db = (db', Inr r)
       \<and> (\<not> success r \<longrightarrow> db' = db \<and> message r \<noteq> SeatsHeldSuccessfully)"
    by (cases rule: holdSeatsWith_outcome [of fails cfg params now db]) auto
  show "\<exists>ok db'. releaseHoldWith fails i reason now db = (db', Inr ok)
       \<and> (\<not> ok \<longrightarrow> db' = db)"
    by (cases rule: releaseHoldWith_outcome [of fails i reason now db]) auto
  show "\<exists>ok db'. convertHoldToBookingWith fails i bookingId now db = (db', Inr ok)
       \<and> (\<not> ok \<longrightarrow> db' = db)"
    by (cases rule: convertHoldToBookingWith_outcome [of fails i bookingId now db]) auto
next
  assume "snd (holdSeatsBody fails cfg params now db) = Inl e"
  from holdSeatsBody_Inl [OF this]
  show "holdSeatsWith fails cfg params now db
         = (db, Inr (holdFailure params now (ErrorMessage e)))"
    by (simp add: holdSeatsWith_def tryCatch_def)
next
  assume "isHoldQuotaAvailableWith fails cfg (reqScheduleId params)
          (int (length (reqSeatNumbers params))) (reqCategory params) db = Inr q
       \<and> available q \<and> \<not> fails TransactionBegin
       \<and> snd (holdSeatsCallback fails params (holdExpiryAt cfg params now) db) = Inl e'"
  moreover from this obtain written where
    "holdSeatsCallback fails params (holdExpiryAt cfg params now) db = (written, Inl e')"
    by (metis prod.collapse)
  ultimately show "holdSeatsWith fails cfg params now db
         = (db, Inr (holdFailure params now (ErrorMessage e')))"
    by (simp add: holdSeatsWith_def holdSeatsBody_def tryCatch_def transaction_def)
next
  assume "snd (releaseHoldCallback fails i reason now db) = Inl e''"
  then obtain written where
    "releaseHoldCallback fails i reason now db = (written, Inl e'')"
    by (metis prod.collapse)
  then show "releaseHoldWith fails i reason now db = (db, Inr False)"
    by (simp add: releaseHoldWith_def tryCatch_def transaction_def)
next
  assume "snd (convertHoldToBookingCallback fails i now db) = Inl e''"
  then obtain written where
    "convertHoldToBookingCallback fails i now db = (written, Inl e'')"
    by (metis prod.collapse)
  then show "convertHoldToBookingWith fails i bookingId now db = (db, Inr False)"
    by (simp add: convertHoldToBookingWith_def tryCatch_def transaction_def)
next
  assume cause: "fails QuotaFindSchedule \<or> fails TransactionBegin \<or> fails HoldFindSchedule
       \<or> fails HoldUpdateSchedule \<or> fails HoldCreateHold \<or> fails TransactionCommit
       \<or> reqCategory params = FLIGHT
       \<or> busSchedules db (reqScheduleId params) = None
       \<or> (\<exists>schedule. busSchedules db (reqScheduleId params) = Some schedule
             \<and> status schedule \<noteq> ''ACTIVE'')
       \<or> (\<exists>schedule seat. busSchedules db (reqScheduleId params) = Some schedule
             \<and> seat \<in> set (reqSeatNumbers params)
             \<and> seatStatus schedule seat \<noteq> Some ''AVAILABLE'')
       \<or> holdExpiryAt cfg params now = None"
  show "\<exists>r. holdSeatsWith fails cfg params now db = (db, Inr r) \<and> \<not> success r"
  proof (cases rule: holdSeatsWith_outcome [of fails cfg params now db])
    case (failed r)
    then show ?thesis by blast
  next
    case held
    have False
      by (rule holdSeats_success [OF held(2)]) (use cause held(3-8) in auto)
    then show ?thesis ..
  qed
next
  assume cause: "fails TransactionBegin \<or> fails ReleaseFindHold \<or> fails ReleaseFindSchedule
       \<or> fails ReleaseUpdateHold \<or> fails TransactionCommit
       \<or> (\<exists>hold schedule. findHold i db = Some hold
             \<and> busSchedules db (scheduleId hold) = Some schedule
             \<and> fails ReleaseUpdateSchedule)
       \<or> findHold i db = None
       \<or> (\<exists>hold. findHold i db = Some hold \<and> holdStatus hold \<noteq> ACTIVE)"
  show "releaseHoldWith fails i reason now db = (db, Inr False)"
  proof (cases rule: releaseHoldWith_outcome [of fails i reason now db])
    case failed
    then show ?thesis .
  next
    case (released hold)
    then have False using cause by auto
    then show ?thesis ..
  qed
next
  assume cause: "fails TransactionBegin \<or> fails ConvertFindHold \<or> fails ConvertUpdateHold
       \<or> fails ConvertFindSchedule \<or> fails TransactionCommit
       \<or> (\<exists>hold schedule. findHold i db = Some hold
             \<and> busSchedules db (scheduleId hold) = Some schedule
             \<and> fails ConvertUpdateSchedule)
       \<or> findHold i db = None
       \<or> (\<exists>hold. findHold i db = Some hold \<and> holdStatus hold \<noteq> ACTIVE)"
  show "convertHoldToBookingWith fails i bookingId now db = (db, Inr False)"
  proof (cases rule: convertHoldToBookingWith_outcome [of fails i bookingId now db])
    case failed
    then show ?thesis .
  next
    case (converted hold)
    then have False using cause by auto
    then show ?thesis ..
  qed
qed

theorem failures_are_caught_and_rolled_back_witness:
  "busSchedules db0 ''S1'' = Some schedule0
   \<and> holdSchedule [''1A''] schedule0 \<noteq> schedule0
   \<and> holdSeatsCallback (failsAt HoldCreateHold) (holdRequest ''1A'')
        (holdExpiryAt cfg0 (holdRequest ''1A'') 1000) db0
      = (db0\<lparr>busSchedules := (busSchedules db0)(''S1'' \<mapsto> holdSchedule [''1A''] schedule0)\<rparr>,
         Inl (StoreFailure HoldCreateHold))
   \<and> holdSeatsWith (failsAt HoldCreateHold) cfg0 (holdRequest ''1A'') 1000 db0
      = (db0, Inr (holdFailure (holdRequest ''1A'') 1000
                     (ErrorMessage (StoreFailure HoldCreateHold))))
   \<and> findHold 7 db0 = None
   \<and> releaseHoldWith (failsAt HoldCreateHold) 7 REASON_USER_CANCELLED 1000 db0
      = (db0, Inr False)
   \<and> convertHoldToBookingWith (failsAt HoldCreateHold) 7 ''booking-1'' 1000 db0
      = (db0, Inr False)
   \<and> releaseHoldCallback (failsAt ReleaseUpdateHold) 0 REASON_USER_CANCELLED 2000 db1
      = (releaseInventory hold0 db1, Inl (StoreFailure ReleaseUpdateHold))
   \<and> busSchedules (releaseInventory hold0 db1) ''S1'' \<noteq> busSchedules db1 ''S1''
   \<and> releaseHoldWith (failsAt ReleaseUpdateHold) 0 REASON_USER_CANCELLED 2000 db1
      = (db1, Inr False)
   \<and> convertHoldToBookingCallback (failsAt ConvertFindSchedule) 0 2000 db1
      = (updateHold 0 (convertedHold 2000) db1, Inl (StoreFailure ConvertFindSchedule))
   \<and> findHold 0 (updateHold 0 (convertedHold 2000) db1) \<noteq> findHold 0 db1
   \<and> convertHoldToBookingWith (failsAt ConvertFindSchedule) 0 ''booking-1'' 2000 db1
      = (db1, Inr False)"
proof -
  note at_hold = failures_are_caught_and_rolled_back
    [where fails = "failsAt HoldCreateHold" and cfg = cfg0 and params = "holdRequest ''1A''"
      and now = 1000 and db = db0 and i = 7 and reason = REASON_USER_CANCELLED
      and bookingId = "''booking-1''"
      and q = "\<lparr>available = True, maxAllowed = 1, currentHeld = 0\<rparr>"
      and e' = "StoreFailure HoldCreateHold"]
  note at_release = failures_are_caught_and_rolled_back
    [where fails = "failsAt ReleaseUpdateHold" and i = 0 and reason = REASON_USER_CANCELLED
      and now = 2000 and db = db1 and e'' = "StoreFailure ReleaseUpdateHold"]
  note at_convert = failures_are_caught_and_rolled_back
    [where fails = "failsAt ConvertFindSchedule" and i = 0 and bookingId = "''booking-1''"
      and now = 2000 and db = db1 and e'' = "StoreFailure ConvertFindSchedule"]
  have a: "holdSchedule [''1A''] schedule0 \<noteq> schedule0"
    by (simp add: holdSchedule_def schedule0_def)
  have b: "busSchedules (releaseInventory hold0 db1) ''S1'' \<noteq> busSchedules db1 ''S1''"
    by (simp add: releaseInventory_db1 schedule_db1 releaseSchedule_def holdSchedule_def
        schedule0_def)
  have c: "findHold 0 (updateHold 0 (convertedHold 2000) db1) \<noteq> findHold 0 db1"
    by (simp add: findHold_def updateHold_def seatHolds_db1 convertedHold_def hold0_def)
  have d: "holdSeatsWith (failsAt HoldCreateHold) cfg0 (holdRequest ''1A'') 1000 db0
      = (db0, Inr (holdFailure (holdRequest ''1A'') 1000
                     (ErrorMessage (StoreFailure HoldCreateHold))))"
    using at_hold by (simp add: quota_db0_with holdSeatsCallback_db0)
  have e: "releaseHoldWith (failsAt HoldCreateHold) 7 REASON_USER_CANCELLED 1000 db0
      = (db0, Inr False)"
    and f: "convertHoldToBookingWith (failsAt HoldCreateHold) 7 ''booking-1'' 1000 db0
      = (db0, Inr False)"
    using at_hold by (simp_all add: findHold_db0_none)
  have g: "releaseHoldWith (failsAt ReleaseUpdateHold) 0 REASON_USER_CANCELLED 2000 db1
      = (db1, Inr False)"
    using at_release by (simp add: releaseHoldCallback_db1)
  have h: "convertHoldToBookingWith (failsAt ConvertFindSchedule) 0 ''booking-1'' 2000 db1
      = (db1, Inr False)"
    using at_convert by (simp add: convertHoldToBookingCallback_db1)
  show ?thesis
    using a b c d e f g h
    by (simp add: schedule_db0 holdSeatsCallback_db0 findHold_db0_none
        releaseHoldCallback_db1 convertHoldToBookingCallback_db1)
qed


section \<open>Releasing and converting a hold\<close>

lemma busSchedules_releaseInventory:
  assumes "busSchedules db (scheduleId h) = Some s"
  shows "busSchedules (releaseInventory h db) =
     (busSchedules db)(scheduleId h \<mapsto> releaseSchedule (seatNumbers h) s)"
  using assms by (simp add: releaseInventory_def releaseScheduleOf_def)

lemma busSchedules_bookInventory:
  assumes "busSchedules db (scheduleId h) = Some s"
  shows "busSchedules (bookInventory h db) =
     (busSchedules db)(scheduleId h \<mapsto> bookSchedule (seatNumbers h) s)"
  using assms by (simp add: bookInventory_def)

lemma seatHolds_releaseInventory [simp]: "seatHolds (releaseInventory h db) = seatHolds db"
  by (simp add: releaseInventory_def)

lemma seatHolds_bookInventory [simp]: "seatHolds (bookInventory h db) = seatHolds db"
  by (simp add: bookInventory_def split: option.splits)

lemma findHold_releaseInventory [simp]: "findHold i (releaseInventory h db) = findHold i db"
  by (simp add: findHold_def)

lemma findHold_bookInventory [simp]: "findHold i (bookInventory h db) = findHold i db"
  by (simp add: findHold_def)

lemma releaseHold_active_effect:
  assumes "findHold i db = Some h" and "holdStatus h = ACTIVE"
    and "busSchedules db (scheduleId h) = Some s"
  shows "snd (releaseHold i reason now db)"
    and "findHold i (fst (releaseHold i reason now db)) = Some (releasedHold reason now h)"
    and "busSchedules (fst (releaseHold i reason now db)) (scheduleId h)
          = Some (releaseSchedule (seatNumbers h) s)"
    and "releaseHold i reason' now' (fst (releaseHold i reason now db))
          = (fst (releaseHold i reason now db), False)"
proof -
  note r = releaseHold_active [OF assms(1,2), of reason now]
  show "snd (releaseHold i reason now db)" by (simp add: r)
  show f: "findHold i (fst (releaseHold i reason now db)) = Some (releasedHold reason now h)"
    by (simp add: r findHold_updateHold assms(1))
  show "busSchedules (fst (releaseHold i reason now db)) (scheduleId h)
          = Some (releaseSchedule (seatNumbers h) s)"
    by (simp add: r busSchedules_releaseInventory [OF assms(3)])
  have "holdStatus (releasedHold reason now h) \<noteq> ACTIVE"
    by (simp add: releasedHold_def)
  then show "releaseHold i reason' now' (fst (releaseHold i reason now db))
          = (fst (releaseHold i reason now db), False)"
    using f by (intro releaseHold_not_active) simp
qed

lemma convertHoldToBooking_active_effect:
  assumes "findHold i db = Some h" and "holdStatus h = ACTIVE"
    and "busSchedules db (scheduleId h) = Some s"
  shows "snd (convertHoldToBooking i bookingId now db)"
    and "findHold i (fst (convertHoldToBooking i bookingId now db))
          = Some (convertedHold now h)"
    and "busSchedules (fst (convertHoldToBooking i bookingId now db)) (scheduleId h)
          = Some (bookSchedule (seatNumbers h) s)"
    and "convertHoldToBooking i bookingId' now' (fst (convertHoldToBooking i bookingId now db))
          = (fst (convertHoldToBooking i bookingId now db), False)"
proof -
  note r = convertHoldToBooking_active [OF assms(1,2), of bookingId now]
  show "snd (convertHoldToBooking i bookingId now db)" by (simp add: r)
  show f: "findHold i (fst (convertHoldToBooking i bookingId now db))
          = Some (convertedHold now h)"
    by (simp add: r findHold_updateHold assms(1))
  have "busSchedules (updateHold i (convertedHold now) db) (scheduleId h) = Some s"
    using assms(3) by simp
  then show "busSchedules (fst (convertHoldToBooking i bookingId now db)) (scheduleId h)
          = Some (bookSchedule (seatNumbers h) s)"
    by (simp add: r busSchedules_bookInventory)
  have "holdStatus (convertedHold now h) \<noteq> ACTIVE"
    by (simp add: convertedHold_def)
  then show "convertHoldToBooking i bookingId' now'
        (fst (convertHoldToBooking i bookingId now db))
          = (fst (convertHoldToBooking i bookingId now db), False)"
    using f by (intro convertHoldToBooking_not_active) simp
qed

text \<open>
  C7, as stated: \<open>releaseHold\<close> on an ACTIVE hold sets its status to RELEASED. The
  function takes a reason, and with the reason \<open>CONVERTED\<close> it returns the seats to
  AVAILABLE and sets the status to CONVERTED.
\<close>

theorem releaseHold_reason_converted_counterexample:
  "findHold 0 db1 = Some hold0 \<and> holdStatus hold0 = ACTIVE
   \<and> snd (releaseHold 0 REASON_CONVERTED 2000 db1)
   \<and> map holdStatus (seatHolds (fst (releaseHold 0 REASON_CONVERTED 2000 db1))) = [CONVERTED]"
  by (simp add: findHold_db1 releaseHold_active [OF findHold_db1] updateHold_def
      seatHolds_db1 releasedHold_def)

text \<open>
  C7, amended: for every hold with status ACTIVE whose schedule exists, \<open>releaseHold\<close>
  succeeds, sets the status to RELEASED (to CONVERTED when the reason is \<open>CONVERTED\<close>) and
  stamps \<open>releasedAt\<close>; each covered seat that is HELD becomes AVAILABLE and every other
  seat status stays; \<open>availableSeats\<close> grows and \<open>heldSeats\<close> shrinks by the hold's seat
  count. A further \<open>releaseHold\<close> on that hold, and on any hold that is not ACTIVE, fails
  and returns the store unchanged: counts, seat statuses and hold records.
\<close>

theorem releaseHold_on_active_hold_then_noop:
  assumes "findHold i db = Some h" and "holdStatus h = ACTIVE"
    and "busSchedules db (scheduleId h) = Some s"
  shows "snd (releaseHold i reason now db)
    \<and> findHold i (fst (releaseHold i reason now db)) =
        Some (h\<lparr>holdStatus := (if reason = REASON_CONVERTED then CONVERTED else RELEASED),
                releasedAt := Some now\<rparr>)
    \<and> (\<exists>s'. busSchedules (fst (releaseHold i reason now db)) (scheduleId h) = Some s'
          \<and> (\<forall>seat. seatStatus s' seat =
                (if seat \<in> set (seatNumbers h) \<and> seatStatus s seat = Some ''HELD''
                 then Some ''AVAILABLE'' else seatStatus s seat))
          \<and> availableSeats s' = availableSeats s + int (length (seatNumbers h))
          \<and> heldSeats s' = heldSeats s - int (length (seatNumbers h))
          \<and> bookedSeats s' = bookedSeats s)
    \<and> releaseHold i reason' now' (fst (releaseHold i reason now db))
        = (fst (releaseHold i reason now db), False)
    \<and> (findHold j db = Some g \<and> holdStatus g \<noteq> ACTIVE \<longrightarrow>
        releaseHold j reason' now' db = (db, False))"
  using releaseHold_active_effect(1-3) [OF assms, of reason now]
    releaseHold_active_effect(4) [OF assms, where reason = reason and now = now
      and reason' = reason' and now' = now']
    releaseHold_not_active [of j db reason' now']
  by (simp add: releasedHold_def releaseSchedule_def releaseSeats_apply)

theorem releaseHold_on_active_hold_then_noop_witness:
  "findHold 0 db1 = Some hold0 \<and> holdStatus hold0 = ACTIVE
   \<and> busSchedules db1 (scheduleId hold0) = Some (holdSchedule [''1A''] schedule0)
   \<and> snd (releaseHold 0 REASON_EXPIRED 700000 db1)
   \<and> findHold 0 (fst (releaseHold 0 REASON_EXPIRED 700000 db1)) =
        Some (hold0\<lparr>holdStatus := RELEASED, releasedAt := Some 700000\<rparr>)
   \<and> (\<exists>s'. busSchedules (fst (releaseHold 0 REASON_EXPIRED 700000 db1)) ''S1'' = Some s'
          \<and> seatStatus s' ''1A'' = Some ''AVAILABLE''
          \<and> availableSeats s' = 4 \<and> heldSeats s' = 0 \<and> bookedSeats s' = 0)
   \<and> releaseHold 0 REASON_USER_CANCELLED 800000 (fst (releaseHold 0 REASON_EXPIRED 700000 db1))
        = (fst (releaseHold 0 REASON_EXPIRED 700000 db1), False)"
proof -
  have s: "busSchedules db1 (scheduleId hold0) = Some (holdSchedule [''1A''] schedule0)"
    by (simp add: schedule_db1)
  have a: "holdStatus hold0 = ACTIVE" by simp
  note t = releaseHold_on_active_hold_then_noop [OF findHold_db1 a s,
      where reason = REASON_EXPIRED and now = 700000 and reason' = REASON_USER_CANCELLED
      and now' = 800000 and j = 0 and g = hold0]
  show ?thesis
    using t
    by (auto simp: findHold_db1 schedule_db1 holdSchedule_def schedule0_def markSeats_apply)
qed

text \<open>
  C8: for every hold with status ACTIVE whose schedule exists, \<open>convertHoldToBooking\<close>
  succeeds, sets the status to CONVERTED, marks each covered seat BOOKED, takes the hold's
  seat count from \<open>heldSeats\<close> and adds it to \<open>bookedSeats\<close>, and leaves \<open>availableSeats\<close>
  and the route with its \<open>totalSeats\<close> as they were. A second call on the same hold fails
  and returns the store unchanged, so a retried conversion books nothing twice.
\<close>

theorem convertHoldToBooking_moves_held_to_booked_once:
  assumes "findHold i db = Some h" and "holdStatus h = ACTIVE"
    and "busSchedules db (scheduleId h) = Some s"
  shows "snd (convertHoldToBooking i bookingId now db)
    \<and> findHold i (fst (convertHoldToBooking i bookingId now db)) =
        Some (h\<lparr>holdStatus := CONVERTED, releasedAt := Some now\<rparr>)
    \<and> (\<exists>s'. busSchedules (fst (convertHoldToBooking i bookingId now db)) (scheduleId h)
            = Some s'
          \<and> (\<forall>seat. seatStatus s' seat =
                (if seat \<in> set (seatNumbers h) then Some ''BOOKED'' else seatStatus s seat))
          \<and> heldSeats s' = heldSeats s - int (length (seatNumbers h))
          \<and> bookedSeats s' = bookedSeats s + int (length (seatNumbers h))
          \<and> availableSeats s' = availableSeats s
          \<and> route s' = route s)
    \<and> convertHoldToBooking i bookingId' now' (fst (convertHoldToBooking i bookingId now db))
        = (fst (convertHoldToBooking i bookingId now db), False)"
  using convertHoldToBooking_active_effect(1-3) [OF assms, of bookingId now]
    convertHoldToBooking_active_effect(4) [OF assms, where bookingId = bookingId
      and now = now and bookingId' = bookingId' and now' = now']
  by (simp add: convertedHold_def bookSchedule_def markSeats_apply)

theorem convertHoldToBooking_moves_held_to_booked_once_witness:
  "findHold 0 db1 = Some hold0 \<and> holdStatus hold0 = ACTIVE
   \<and> busSchedules db1 (scheduleId hold0) = Some (holdSchedule [''1A''] schedule0)
   \<and> snd (convertHoldToBooking 0 ''booking-1'' 2000 db1)
   \<and> findHold 0 (fst (convertHoldToBooking 0 ''booking-1'' 2000 db1)) =
        Some (hold0\<lparr>holdStatus := CONVERTED, releasedAt := Some 2000\<rparr>)
   \<and> (\<exists>s'. busSchedules (fst (convertHoldToBooking 0 ''booking-1'' 2000 db1)) ''S1'' = Some s'
          \<and> seatStatus s' ''1A'' = Some ''BOOKED''
          \<and> availableSeats s' = 3 \<and> heldSeats s' = 0 \<and> bookedSeats s' = 1
          \<and> totalSeats (route s') = 4)
   \<and> convertHoldToBooking 0 ''booking-1'' 3000
        (fst (convertHoldToBooking 0 ''booking-1'' 2000 db1))
        = (fst (convertHoldToBooking 0 ''booking-1'' 2000 db1), False)"
proof -
  have s: "busSchedules db1 (scheduleId hold0) = Some (holdSchedule [''1A''] schedule0)"
    by (simp add: schedule_db1)
  have a: "holdStatus hold0 = ACTIVE" by simp
  note t = convertHoldToBooking_moves_held_to_booked_once [OF findHold_db1 a s,
      where bookingId = "''booking-1''" and now = 2000 and bookingId' = "''booking-1''"
      and now' = 3000]
  show ?thesis
    using t
    by (auto simp: findHold_db1 schedule_db1 holdSchedule_def schedule0_def)
qed

section \<open>The sweep of expired holds\<close>

subsection \<open>A hold that is not ACTIVE stays so\<close>

lemma findHold_releaseHold_other:
  assumes "j \<noteq> i"
  shows "findHold j (fst (releaseHold i reason now db)) = findHold j db"
proof (cases "snd (releaseHold i reason now db)")
  case True
  then obtain h where h: "findHold i db = Some h" "holdStatus h = ACTIVE"
    by (rule releaseHold_success)
  show ?thesis
    using assms by (simp add: releaseHold_active [OF h] findHold_updateHold)
next
  case False
  then show ?thesis by (simp add: releaseHold_failure_unchanged)
qed

lemma findHold_releaseHold_same:
  assumes "findHold i (fst (releaseHold i reason now db)) = Some g"
  shows "holdStatus g \<noteq> ACTIVE"
proof (cases "snd (releaseHold i reason now db)")
  case True
  then obtain h where h: "findHold i db = Some h" "holdStatus h = ACTIVE"
    by (rule releaseHold_success)
  have "g = releasedHold reason now h"
    using assms by (simp add: releaseHold_active [OF h] findHold_updateHold h(1))
  then show ?thesis by (simp add: releasedHold_def)
next
  case False
  then have same: "fst (releaseHold i reason now db) = db"
    by (rule releaseHold_failure_unchanged)
  show ?thesis
  proof
    assume g: "holdStatus g = ACTIVE"
    have "findHold i db = Some g" using assms same by simp
    from releaseHold_active [OF this g, of reason now]
    show False using False by simp
  qed
qed

lemma not_active_preserved:
  assumes "\<forall>g. findHold j db = Some g \<longrightarrow> holdStatus g \<noteq> ACTIVE"
  shows "\<forall>g. findHold j (fst (releaseHold i reason now db)) = Some g \<longrightarrow> holdStatus g \<noteq> ACTIVE"
proof (cases "j = i")
  case True
  then show ?thesis using findHold_releaseHold_same by blast
next
  case False
  then show ?thesis using assms by (simp add: findHold_releaseHold_other)
qed

lemma releaseEach_not_active_preserved:
  assumes "\<forall>g. findHold j db = Some g \<longrightarrow> holdStatus g \<noteq> ACTIVE"
  shows "\<forall>g. findHold j (fst (releaseEach hs now db c)) = Some g \<longrightarrow> holdStatus g \<noteq> ACTIVE"
  using assms
proof (induction hs arbitrary: db c)
  case Nil
  then show ?case by simp
next
  case (Cons hold rest)
  obtain db1 ok where r: "releaseHold (holdId hold) REASON_EXPIRED now db = (db1, ok)"
    by fastforce
  have "\<forall>g. findHold j db1 = Some g \<longrightarrow> holdStatus g \<noteq> ACTIVE"
    using not_active_preserved [OF Cons.prems, of "holdId hold" REASON_EXPIRED now] r by simp
  then show ?case using Cons.IH r by simp
qed

lemma releaseEach_leaves_none_active:
  assumes "hold \<in> set hs"
    and "findHold (holdId hold) (fst (releaseEach hs now db c)) = Some g"
  shows "holdStatus g \<noteq> ACTIVE"
  using assms
proof (induction hs arbitrary: db c)
  case Nil
  then show ?case by simp
next
  case (Cons first rest)
  obtain db1 ok where r: "releaseHold (holdId first) REASON_EXPIRED now db = (db1, ok)"
    by fastforce
  define c1 where "c1 = (if ok then c + 1 else c)"
  have step: "releaseEach (first # rest) now db c = releaseEach rest now db1 c1"
    using r by (simp add: c1_def)
  have g': "findHold (holdId hold) (fst (releaseEach rest now db1 c1)) = Some g"
    using Cons.prems(2) unfolding step .
  show ?case
  proof (cases "holdId hold = holdId first")
    case True
    have "fst (releaseHold (holdId first) REASON_EXPIRED now db) = db1"
      by (simp only: r fst_conv)
    then have "\<forall>g. findHold (holdId hold) db1 = Some g \<longrightarrow> holdStatus g \<noteq> ACTIVE"
      using findHold_releaseHold_same [of "holdId first" REASON_EXPIRED now db] True
      by metis
    from releaseEach_not_active_preserved [OF this, of rest now c1] g'
    show ?thesis by blast
  next
    case False
    then have "hold \<in> set rest" using Cons.prems(1) by auto
    from Cons.IH [OF this g'] show ?thesis .
  qed
qed

subsection \<open>The sweep over distinct holds\<close>

lemma findHold_member:
  assumes "distinct (map holdId (seatHolds db))" and "h \<in> set (seatHolds db)"
  shows "findHold (holdId h) db = Some h"
proof -
  have "List.find (\<lambda>g. holdId g = holdId h) xs = Some h"
    if "distinct (map holdId xs)" "h \<in> set xs" for xs
    using that by (induction xs) (auto simp: image_iff)
  then show ?thesis using assms by (simp add: findHold_def)
qed

lemma seatHolds_updateHold:
  "seatHolds (updateHold i f db) = map (\<lambda>h. if holdId h = i then f h else h) (seatHolds db)"
  by (simp add: updateHold_def)

lemma updateHold_twice_holds:
  assumes "i \<notin> holdId ` set rest" and "\<And>g. holdId (f g) = holdId g"
  shows "map (\<lambda>g. if holdId g \<in> holdId ` set rest then f g else g)
           (map (\<lambda>g. if holdId g = i then f g else g) xs) =
         map (\<lambda>g. if holdId g = i \<or> holdId g \<in> holdId ` set rest then f g else g) xs"
proof (induction xs)
  case Nil
  then show ?case by simp
next
  case (Cons x xs)
  show ?case
  proof (cases "holdId x = i")
    case True
    then show ?thesis using Cons assms by simp
  next
    case False
    then show ?thesis using Cons by simp
  qed
qed

lemma member_map_unchanged:
  assumes "g \<in> set xs" and "holdId g \<noteq> i"
  shows "g \<in> set (map (\<lambda>g. if holdId g = i then f g else g) xs)"
  using assms by (induction xs) auto

lemma map_holdId_update:
  assumes "\<And>g. holdId (f g) = holdId g"
  shows "map holdId (map (\<lambda>g. if holdId g = i then f g else g) xs) = map holdId xs"
  using assms by (induction xs) simp_all

lemma releaseEach_distinct:
  assumes "distinct (map holdId (seatHolds db))"
    and "set hs \<subseteq> set (seatHolds db)"
    and "distinct (map holdId hs)"
    and "\<forall>h\<in>set hs. holdStatus h = ACTIVE"
  shows "snd (releaseEach hs now db c) = c + length hs
    \<and> seatHolds (fst (releaseEach hs now db c)) =
        map (\<lambda>h. if holdId h \<in> holdId ` set hs then releasedHold REASON_EXPIRED now h else h)
          (seatHolds db)
    \<and> busSchedules (fst (releaseEach hs now db c)) = fold releaseScheduleOf hs (busSchedules db)"
  using assms
proof (induction hs arbitrary: db c)
  case Nil
  then show ?case by (simp add: map_idI)
next
  case (Cons h rest)
  let ?f = "releasedHold REASON_EXPIRED now"
  define db1 where "db1 = updateHold (holdId h) ?f (releaseInventory h db)"
  have "h \<in> set (seatHolds db)" using Cons.prems(2) by simp
  then have found: "findHold (holdId h) db = Some h"
    using findHold_member [OF Cons.prems(1)] by simp
  have active: "holdStatus h = ACTIVE" using Cons.prems(4) by simp
  have r: "releaseHold (holdId h) REASON_EXPIRED now db = (db1, True)"
    using releaseHold_active [OF found active] by (simp add: db1_def)
  have holds1: "seatHolds db1 = map (\<lambda>g. if holdId g = holdId h then ?f g else g) (seatHolds db)"
    by (simp add: db1_def seatHolds_updateHold)
  have ids1: "map holdId (seatHolds db1) = map holdId (seatHolds db)"
    unfolding holds1 by (rule map_holdId_update) simp
  have d1: "distinct (map holdId (seatHolds db1))" using Cons.prems(1) ids1 by simp
  have notin: "holdId h \<notin> holdId ` set rest" using Cons.prems(3) by simp
  have sub1: "set rest \<subseteq> set (seatHolds db1)"
  proof
    fix g assume g: "g \<in> set rest"
    then have "holdId g \<noteq> holdId h" using notin by (metis image_eqI)
    moreover have "g \<in> set (seatHolds db)" using g Cons.prems(2) by auto
    ultimately show "g \<in> set (seatHolds db1)"
      unfolding holds1 by (rule member_map_unchanged [rotated])
  qed
  have d2: "distinct (map holdId rest)" using Cons.prems(3) by simp
  have a2: "\<forall>g\<in>set rest. holdStatus g = ACTIVE" using Cons.prems(4) by simp
  note IH = Cons.IH [OF d1 sub1 d2 a2, of "c + 1"]
  have step: "releaseEach (h # rest) now db c = releaseEach rest now db1 (c + 1)"
    using r by simp
  have sched1: "busSchedules db1 = releaseScheduleOf h (busSchedules db)"
    by (simp add: db1_def releaseInventory_def)
  have "map (\<lambda>g. if holdId g \<in> holdId ` set rest then ?f g else g) (seatHolds db1) =
      map (\<lambda>g. if holdId g = holdId h \<or> holdId g \<in> holdId ` set rest then ?f g else g)
        (seatHolds db)"
    unfolding holds1 by (rule updateHold_twice_holds [OF notin]) simp
  then show ?case unfolding step using IH by (simp add: sched1)
qed

lemma releaseSeats_append:
  "releaseSeats (xs @ ys) m = releaseSeats ys (releaseSeats xs m)"
  by (simp add: releaseSeats_def)

lemma releaseSchedule_twice:
  "releaseSchedule ys (releaseSchedule xs s) = releaseSchedule (xs @ ys) s"
  by (simp add: releaseSchedule_def releaseSeats_append)

lemma releaseSchedule_Nil [simp]: "releaseSchedule [] s = s"
  by (simp add: releaseSchedule_def releaseSeats_def)

lemma releaseScheduleOf_apply:
  "releaseScheduleOf h m sid =
     (if scheduleId h = sid then map_option (releaseSchedule (seatNumbers h)) (m sid)
      else m sid)"
  by (simp add: releaseScheduleOf_def split: option.splits)

lemma fold_releaseScheduleOf:
  "fold releaseScheduleOf hs m sid =
     map_option
       (releaseSchedule (concat (map seatNumbers (filter (\<lambda>h. scheduleId h = sid) hs))))
       (m sid)"
proof (induction hs arbitrary: m)
  case Nil
  show ?case by (cases "m sid") simp_all
next
  case (Cons h rest)
  have "fold releaseScheduleOf (h # rest) m sid =
      fold releaseScheduleOf rest (releaseScheduleOf h m) sid"
    by simp
  also have "\<dots> = map_option
       (releaseSchedule (concat (map seatNumbers (filter (\<lambda>h. scheduleId h = sid) rest))))
       (releaseScheduleOf h m sid)"
    by (rule Cons.IH)
  also have "\<dots> = map_option
       (releaseSchedule
          (concat (map seatNumbers (filter (\<lambda>h. scheduleId h = sid) (h # rest)))))
       (m sid)"
    by (cases "m sid") (simp_all add: releaseScheduleOf_apply releaseSchedule_twice)
  finally show ?case .
qed

lemma holdId_image_expired:
  assumes "distinct (map holdId xs)" and "h \<in> set xs"
  shows "holdId h \<in> holdId ` set (filter P xs) \<longleftrightarrow> P h"
proof
  assume "holdId h \<in> holdId ` set (filter P xs)"
  then obtain g where g: "g \<in> set xs" "P g" "holdId g = holdId h" by auto
  have "inj_on holdId (set xs)" using assms(1) by (simp add: distinct_map)
  then have "g = h" using g(1,3) assms(2) by (auto dest: inj_onD)
  then show "P h" using g(2) by simp
next
  assume "P h"
  then show "holdId h \<in> holdId ` set (filter P xs)" using assms(2) by auto
qed

lemma releaseExpiredHolds_distinct:
  assumes "distinct (map holdId (seatHolds db))"
  shows "snd (releaseExpiredHolds now db) = length (filter (isExpired now) (seatHolds db))"
    and "seatHolds (fst (releaseExpiredHolds now db)) =
        map (\<lambda>h. if isExpired now h then releasedHold REASON_EXPIRED now h else h)
          (seatHolds db)"
    and "busSchedules (fst (releaseExpiredHolds now db)) =
        fold releaseScheduleOf (filter (isExpired now) (seatHolds db)) (busSchedules db)"
proof -
  let ?hs = "filter (isExpired now) (seatHolds db)"
  have sub: "set ?hs \<subseteq> set (seatHolds db)" by auto
  have dist: "distinct (map holdId ?hs)" using assms by (rule distinct_map_filter)
  have act: "\<forall>h\<in>set ?hs. holdStatus h = ACTIVE" by (simp add: isExpired_def)
  note main = releaseEach_distinct [OF assms sub dist act, of now 0]
  show "snd (releaseExpiredHolds now db) = length ?hs"
    using main by (simp add: releaseExpiredHolds_def)
  show "busSchedules (fst (releaseExpiredHolds now db)) = fold releaseScheduleOf ?hs (busSchedules db)"
    using main by (simp add: releaseExpiredHolds_def)
  have "map (\<lambda>h. if holdId h \<in> holdId ` set ?hs then releasedHold REASON_EXPIRED now h else h)
          (seatHolds db) =
        map (\<lambda>h. if isExpired now h then releasedHold REASON_EXPIRED now h else h)
          (seatHolds db)"
    using holdId_image_expired [OF assms, of _ "isExpired now"]
    by (intro map_cong refl) simp
  then show "seatHolds (fst (releaseExpiredHolds now db)) =
        map (\<lambda>h. if isExpired now h then releasedHold REASON_EXPIRED now h else h)
          (seatHolds db)"
    using main by (simp add: releaseExpiredHolds_def)
qed

lemma releaseEach_failure_skips:
  assumes "\<not> snd (releaseHold (holdId hold) REASON_EXPIRED now d)"
  shows "releaseEach (hold # rest) now d c = releaseEach rest now d c"
proof -
  have "releaseHold (holdId hold) REASON_EXPIRED now d = (d, False)"
    using assms releaseHold_failure_unchanged [OF assms] by (simp add: prod_eq_iff)
  then show ?thesis by simp
qed

text \<open>
  C9, as stated: the sweeper releases every ACTIVE hold whose expiry is at or before the
  current time. The query selects \<open>holdExpiry < now\<close>, so a hold that expires exactly at
  the time of the sweep is left ACTIVE and nothing is released.
\<close>

theorem sweep_skips_hold_expiring_now:
  "seatHolds db1 = [hold0] \<and> holdStatus hold0 = ACTIVE \<and> holdExpiry hold0 \<le> 601000
   \<and> releaseExpiredHolds 601000 db1 = (db1, 0)"
  by (simp add: seatHolds_db1 releaseExpiredHolds_def isExpired_def)

text \<open>
  C9, amended: in a store whose hold ids are distinct, one run of \<open>releaseExpiredHolds\<close>
  releases every ACTIVE hold whose expiry lies strictly before the current time: each
  such record becomes RELEASED with \<open>releasedAt\<close> stamped and every other record is left
  alone; in each schedule the seats covered by its expired holds that are HELD become
  AVAILABLE, and \<open>availableSeats\<close> grows and \<open>heldSeats\<close> shrinks by the number of seats
  those holds cover; the returned number is the number of holds released. The holds are
  processed one after the other: a hold whose release fails is skipped with the store
  and the count untouched, and whatever list of holds the loop is given, none of them is
  ACTIVE when it ends.
\<close>

theorem sweep_releases_expired_holds:
  assumes "distinct (map holdId (seatHolds db))"
  shows "snd (releaseExpiredHolds now db) = length (filter (isExpired now) (seatHolds db))
    \<and> seatHolds (fst (releaseExpiredHolds now db)) =
        map (\<lambda>h. if holdStatus h = ACTIVE \<and> holdExpiry h < now
                 then h\<lparr>holdStatus := RELEASED, releasedAt := Some now\<rparr> else h)
          (seatHolds db)
    \<and> (busSchedules db sid = Some s \<longrightarrow>
        (\<exists>s'. busSchedules (fst (releaseExpiredHolds now db)) sid = Some s'
          \<and> (\<forall>seat. seatStatus s' seat =
                (if (\<exists>h\<in>set (seatHolds db). isExpired now h \<and> scheduleId h = sid
                        \<and> seat \<in> set (seatNumbers h))
                    \<and> seatStatus s seat = Some ''HELD''
                 then Some ''AVAILABLE'' else seatStatus s seat))
          \<and> availableSeats s' = availableSeats s
              + int (length (concat (map seatNumbers
                  (filter (\<lambda>h. isExpired now h \<and> scheduleId h = sid) (seatHolds db)))))
          \<and> heldSeats s' = heldSeats s
              - int (length (concat (map seatNumbers
                  (filter (\<lambda>h. isExpired now h \<and> scheduleId h = sid) (seatHolds db)))))
          \<and> bookedSeats s' = bookedSeats s))
    \<and> (\<not> snd (releaseHold (holdId hold) REASON_EXPIRED now d) \<longrightarrow>
        releaseEach (hold # rest) now d c = releaseEach rest now d c)
    \<and> (hold' \<in> set hs \<and> findHold (holdId hold') (fst (releaseEach hs now d c)) = Some g \<longrightarrow>
        holdStatus g \<noteq> ACTIVE)"
proof -
  note sweep = releaseExpiredHolds_distinct [OF assms, of now]
  let ?es = "filter (\<lambda>h. isExpired now h \<and> scheduleId h = sid) (seatHolds db)"
  have es: "filter (\<lambda>h. scheduleId h = sid) (filter (isExpired now) (seatHolds db)) = ?es"
    by (simp add: conj_commute)
  have seats: "seat \<in> set (concat (map seatNumbers ?es)) \<longleftrightarrow>
      (\<exists>h\<in>set (seatHolds db). isExpired now h \<and> scheduleId h = sid
          \<and> seat \<in> set (seatNumbers h))" for seat
    by auto
  have sched: "busSchedules (fst (releaseExpiredHolds now db)) sid =
      Some (releaseSchedule (concat (map seatNumbers ?es)) s)"
    if "busSchedules db sid = Some s"
    using that by (simp add: sweep(3) fold_releaseScheduleOf es)
  have part3: "busSchedules db sid = Some s \<longrightarrow>
      (\<exists>s'. busSchedules (fst (releaseExpiredHolds now db)) sid = Some s'
        \<and> (\<forall>seat. seatStatus s' seat =
              (if (\<exists>h\<in>set (seatHolds db). isExpired now h \<and> scheduleId h = sid
                      \<and> seat \<in> set (seatNumbers h))
                  \<and> seatStatus s seat = Some ''HELD''
               then Some ''AVAILABLE'' else seatStatus s seat))
        \<and> availableSeats s' = availableSeats s + int (length (concat (map seatNumbers ?es)))
        \<and> heldSeats s' = heldSeats s - int (length (concat (map seatNumbers ?es)))
        \<and> bookedSeats s' = bookedSeats s)"
  proof
    assume "busSchedules db sid = Some s"
    from sched [OF this] show "\<exists>s'. busSchedules (fst (releaseExpiredHolds now db)) sid = Some s'
        \<and> (\<forall>seat. seatStatus s' seat =
              (if (\<exists>h\<in>set (seatHolds db). isExpired now h \<and> scheduleId h = sid
                      \<and> seat \<in> set (seatNumbers h))
                  \<and> seatStatus s seat = Some ''HELD''
               then Some ''AVAILABLE'' else seatStatus s seat))
        \<and> availableSeats s' = availableSeats s + int (length (concat (map seatNumbers ?es)))
        \<and> heldSeats s' = heldSeats s - int (length (concat (map seatNumbers ?es)))
        \<and> bookedSeats s' = bookedSeats s"
      by (simp add: releaseSchedule_def releaseSeats_apply seats del: set_concat)
  qed
  have part2: "seatHolds (fst (releaseExpiredHolds now db)) =
        map (\<lambda>h. if holdStatus h = ACTIVE \<and> holdExpiry h < now
                 then h\<lparr>holdStatus := RELEASED, releasedAt := Some now\<rparr> else h)
          (seatHolds db)"
    by (simp add: sweep(2) isExpired_def releasedHold_def)
  show ?thesis
    using sweep(1) part2 part3 releaseEach_failure_skips [of hold now d rest c]
      releaseEach_leaves_none_active [of hold' hs now d c g]
    by blast
qed


lemma releaseHold_stale_db1: "releaseHold 7 REASON_EXPIRED 700000 db1 = (db1, False)"
  using releaseHold_not_active [of 7 db1] findHold_db1_none by simp

lemma findHold_after_sweep_db1:
  "findHold 0 (updateHold 0 (releasedHold REASON_EXPIRED 700000) (releaseInventory hold0 db1))
     = Some (hold0\<lparr>holdStatus := RELEASED, releasedAt := Some 700000\<rparr>)"
  by (simp add: findHold_updateHold findHold_db1 releasedHold_def)

theorem sweep_releases_expired_holds_witness:
  "distinct (map holdId (seatHolds db1))
   \<and> snd (releaseExpiredHolds 700000 db1) = 1
   \<and> seatHolds (fst (releaseExpiredHolds 700000 db1)) =
       [hold0\<lparr>holdStatus := RELEASED, releasedAt := Some 700000\<rparr>]
   \<and> busSchedules db1 ''S1'' = Some (holdSchedule [''1A''] schedule0)
   \<and> (\<exists>s'. busSchedules (fst (releaseExpiredHolds 700000 db1)) ''S1'' = Some s'
         \<and> seatStatus s' ''1A'' = Some ''AVAILABLE''
         \<and> availableSeats s' = 4 \<and> heldSeats s' = 0 \<and> bookedSeats s' = 0)
   \<and> \<not> snd (releaseHold (holdId (hold0\<lparr>holdId := 7\<rparr>)) REASON_EXPIRED 700000 db1)
   \<and> releaseEach [hold0\<lparr>holdId := 7\<rparr>, hold0] 700000 db1 0
       = releaseEach [hold0] 700000 db1 0
   \<and> findHold (holdId hold0) (fst (releaseEach [hold0\<lparr>holdId := 7\<rparr>, hold0] 700000 db1 0))
       = Some (hold0\<lparr>holdStatus := RELEASED, releasedAt := Some 700000\<rparr>)
   \<and> holdStatus (hold0\<lparr>holdStatus := RELEASED, releasedAt := Some 700000\<rparr>) \<noteq> ACTIVE"
proof -
  have d: "distinct (map holdId (seatHolds db1))" by (simp add: seatHolds_db1)
  note t = sweep_releases_expired_holds [OF d, where now = 700000 and sid = "''S1''"
      and s = "holdSchedule [''1A''] schedule0" and hold = "hold0\<lparr>holdId := 7\<rparr>"
      and d = db1 and rest = "[hold0]" and c = 0 and hold' = hold0
      and hs = "[hold0\<lparr>holdId := 7\<rparr>, hold0]"
      and g = "hold0\<lparr>holdStatus := RELEASED, releasedAt := Some 700000\<rparr>"]
  have seat: "seatStatus (holdSchedule [''1A''] schedule0) ''1A'' = Some ''HELD''"
    by (simp add: holdSchedule_def markSeats_apply)
  have counts: "availableSeats (holdSchedule [''1A''] schedule0) = 3"
    "heldSeats (holdSchedule [''1A''] schedule0) = 1"
    "bookedSeats (holdSchedule [''1A''] schedule0) = 0"
    by (simp_all add: holdSchedule_def schedule0_def)
  show ?thesis
    using t d
    by (auto simp: seatHolds_db1 isExpired_def schedule_db1 releaseHold_stale_db1
        releaseHold_active [OF findHold_db1] findHold_after_sweep_db1 seat counts)
qed

section \<open>Two requests at the same time\<close>

text \<open>
  \<open>holdSeats\<close> awaits \<open>isHoldQuotaAvailable\<close> and only then opens its transaction, so the
  store a request checks the quota against and the store its transaction writes to can
  differ: another request may commit in between. A call that runs alone is the check
  followed by the rest on the same store.
\<close>

lemma holdSeats_check_then_rest:
  assumes "isHoldQuotaAvailable cfg (reqScheduleId params)
      (int (length (reqSeatNumbers params))) (reqCategory params) db = Inr q"
  shows "holdSeats cfg params now db = holdSeatsAfterCheck cfg params now q db"
  using assms by (simp add: holdSeats_def)

lemma holdSeatsTx_db1:
  "holdSeatsTx (holdRequest ''1B'') (Some 601000) db1 =
     Inr (db1\<lparr>busSchedules :=
                (busSchedules db1)(''S1'' \<mapsto>
                   holdSchedule [''1B''] (holdSchedule [''1A''] schedule0)),
              seatHolds := [hold0, newHold (holdRequest ''1B'') 601000 db1],
              nextHoldId := 2\<rparr>,
          newHold (holdRequest ''1B'') 601000 db1)"
  by (simp add: holdSeatsTx_def schedule_db1 holdSchedule_def schedule0_def seats0_def
      markSeats_def seatHolds_db1 db1_def)

text \<open>
  C2: with a quota of one seat, two requests for one seat each must give one success and
  one quota-exceeded failure. When both requests check the quota before either
  transaction commits, both see no seat held, both transactions commit, and two seats
  are held against a quota of one.
\<close>

theorem concurrent_requests_both_pass_quota_check:
  "isHoldQuotaAvailable cfg0 (reqScheduleId (holdRequest ''1A''))
      (int (length (reqSeatNumbers (holdRequest ''1A'')))) (reqCategory (holdRequest ''1A''))
      db0 = Inr \<lparr>available = True, maxAllowed = 1, currentHeld = 0\<rparr>
   \<and> isHoldQuotaAvailable cfg0 (reqScheduleId (holdRequest ''1B''))
      (int (length (reqSeatNumbers (holdRequest ''1B'')))) (reqCategory (holdRequest ''1B''))
      db0 = Inr \<lparr>available = True, maxAllowed = 1, currentHeld = 0\<rparr>
   \<and> holdSeatsAfterCheck cfg0 (holdRequest ''1A'') 1000
        \<lparr>available = True, maxAllowed = 1, currentHeld = 0\<rparr> db0
       = (db1, \<lparr>success = True, resultHoldId = Some 0, resultSeatNumbers = [''1A''],
                resultHoldExpiry = 601000, message = SeatsHeldSuccessfully\<rparr>)
   \<and> success (snd (holdSeatsAfterCheck cfg0 (holdRequest ''1B'') 1000
        \<lparr>available = True, maxAllowed = 1, currentHeld = 0\<rparr> db1))
   \<and> map_option heldSeats (busSchedules (fst (holdSeatsAfterCheck cfg0 (holdRequest ''1B'') 1000
        \<lparr>available = True, maxAllowed = 1, currentHeld = 0\<rparr> db1)) ''S1'') = Some 2
   \<and> map holdStatus (seatHolds (fst (holdSeatsAfterCheck cfg0 (holdRequest ''1B'') 1000
        \<lparr>available = True, maxAllowed = 1, currentHeld = 0\<rparr> db1))) = [ACTIVE, ACTIVE]
   \<and> holdSeats cfg0 (holdRequest ''1B'') 1000 db1
       = (db1, holdFailure (holdRequest ''1B'') 1000 (HoldQuotaExceeded 1 1))"
proof -
  have b: "holdSeatsAfterCheck cfg0 (holdRequest ''1B'') 1000
        \<lparr>available = True, maxAllowed = 1, currentHeld = 0\<rparr> db1 =
      (db1\<lparr>busSchedules :=
                (busSchedules db1)(''S1'' \<mapsto>
                   holdSchedule [''1B''] (holdSchedule [''1A''] schedule0)),
              seatHolds := [hold0, newHold (holdRequest ''1B'') 601000 db1],
              nextHoldId := 2\<rparr>,
       \<lparr>success = True, resultHoldId = Some 1, resultSeatNumbers = [''1B''],
        resultHoldExpiry = 601000, message = SeatsHeldSuccessfully\<rparr>)"
    by (simp add: holdSeatsAfterCheck_def holdExpiryAt_cfg0 holdSeatsTx_db1)
      (simp add: newHold_def db1_def)
  have c: "holdSeats cfg0 (holdRequest ''1B'') 1000 db1
       = (db1, holdFailure (holdRequest ''1B'') 1000 (HoldQuotaExceeded 1 1))"
    by (simp add: holdSeats_def quota_db1 holdSeatsAfterCheck_def)
  show ?thesis
    unfolding b c
    by (simp add: quota_db0 holdSeatsAfterCheck_db0 holdSchedule_def schedule0_def
        newHold_def)
qed

end
